theory Spec2Isabelle
  imports Main "HOL-Library.Sublist"
begin

section \<open>apply-branding.ts: the branding pipeline\<close>

text \<open>
  The script \<^verbatim>\<open>src/rebranding/apply-branding.ts\<close> has one function, \<^verbatim>\<open>main\<close>, with four
  stages: the package manifest, the localization map, the icons and the locale directory.
  Strings are lists of code units, the file system and the console are explicit state, and
  every exception is a value. What Node provides (\<^verbatim>\<open>fs\<close>, \<^verbatim>\<open>path\<close>, \<^verbatim>\<open>JSON\<close>) is a
  parameter of the model, the record \<open>platform\<close>.
\<close>

subsection \<open>String primitives\<close>

text \<open>
  \<^verbatim>\<open>str.split(sep)\<close>: the text is scanned from the left; where the separator matches, the
  current piece ends and the scan goes on behind the match. An empty separator cuts the text
  into its code units, and the empty text gives no piece at all then.
\<close>

fun str_split :: "'a list \<Rightarrow> 'a list \<Rightarrow> 'a list list" where
  "str_split sep [] = (if sep = [] then [] else [[]])"
| "str_split sep (c # cs) =
     (if sep = [] then [c] # str_split sep cs
      else if prefix sep (c # cs) then [] # str_split sep (drop (length sep) (c # cs))
      else (case str_split sep cs of [] \<Rightarrow> [[c]] | p # ps \<Rightarrow> (c # p) # ps))"

text \<open>\<^verbatim>\<open>pieces.join(sep)\<close>.\<close>

fun str_join :: "'a list \<Rightarrow> 'a list list \<Rightarrow> 'a list" where
  "str_join sep [] = []"
| "str_join sep [p] = p"
| "str_join sep (p # q # ps) = p @ sep @ str_join sep (q # ps)"

text \<open>
  The helper of lines 44-46 and 152-154:
  \<^verbatim>\<open>const replaceAll = (str, find, replace) => str.split(find).join(replace)\<close>.
\<close>

definition replaceAll :: "'a list \<Rightarrow> 'a list \<Rightarrow> 'a list \<Rightarrow> 'a list" where
  "replaceAll str fnd rep = str_join rep (str_split fnd str)"

text \<open>\<^verbatim>\<open>file.endsWith(".json")\<close>.\<close>

definition endsWith :: "string \<Rightarrow> string \<Rightarrow> bool" where
  "endsWith s x = suffix x s"

subsection \<open>Parsed JSON documents\<close>

text \<open>
  The value \<^verbatim>\<open>JSON.parse\<close> returns. An object is the list of its own properties in
  insertion order; an array carries, next to its elements, the named properties assigned to
  it later. Numbers are opaque.
\<close>

datatype 'n jsvalue =
    JNull
  | JBool bool
  | JNumber 'n
  | JString string
  | JArray "'n jsvalue list" "(string \<times> 'n jsvalue) list"
  | JObject "(string \<times> 'n jsvalue) list"

datatype exn = SyntaxError string | TypeError string | SystemError string

text \<open>An assignment keeps the place of a property that exists and appends a new one.\<close>

fun assign :: "string \<Rightarrow> 'v \<Rightarrow> (string \<times> 'v) list \<Rightarrow> (string \<times> 'v) list" where
  "assign k v [] = [(k, v)]"
| "assign k v (p # ps) = (if fst p = k then (k, v) # ps else p # assign k v ps)"

text \<open>
  \<^verbatim>\<open>obj[key] = value\<close> in module code, which is strict: on \<^verbatim>\<open>null\<close> and on a primitive the
  assignment throws a TypeError. The keys this program assigns are neither array indices
  nor \<^verbatim>\<open>length\<close>, so on an array they are plain named properties.
\<close>

fun setProperty :: "string \<Rightarrow> 'n jsvalue \<Rightarrow> 'n jsvalue \<Rightarrow> exn + 'n jsvalue" where
  "setProperty k v (JObject ps) = Inr (JObject (assign k v ps))"
| "setProperty k v (JArray xs ps) = Inr (JArray xs (assign k v ps))"
| "setProperty k v _ = Inl (TypeError ''Cannot set properties'')"

fun getProperty :: "string \<Rightarrow> 'n jsvalue \<Rightarrow> 'n jsvalue option" where
  "getProperty k (JObject ps) = map_of ps k"
| "getProperty k (JArray xs ps) = map_of ps k"
| "getProperty k _ = None"

text \<open>The own properties of a document, in order.\<close>

fun properties :: "'n jsvalue \<Rightarrow> (string \<times> 'n jsvalue) list" where
  "properties (JObject ps) = ps"
| "properties (JArray xs ps) = ps"
| "properties _ = []"

definition attempt :: "exn + 'a \<Rightarrow> ('a \<Rightarrow> exn + 'b) \<Rightarrow> exn + 'b" where
  "attempt r f = (case r of Inl e \<Rightarrow> Inl e | Inr x \<Rightarrow> f x)"

subsection \<open>The configuration\<close>

record files_cfg =
  package :: "string option"
  nls :: "string option"

text \<open>
  \<^verbatim>\<open>interface BrandingConfig\<close> (lines 11-24). \<open>icons\<close> is the list of the properties of
  the icons object in the order of the configuration document; \<open>shortName\<close> is the field read
  through \<^verbatim>\<open>(branding as any).shortName\<close>.
\<close>

record BrandingConfig =
  name :: string
  displayName :: string
  publisher :: string
  description :: string
  outputChannelName :: string
  repository :: string
  homepage :: string
  files :: "files_cfg option"
  icons :: "(string \<times> string) list option"
  shortName :: "string option"

subsection \<open>Stage 1: the package manifest\<close>

text \<open>Lines 50 and 56: the two global replacements on the raw text, in this order.\<close>

definition rewritePackageText :: "BrandingConfig \<Rightarrow> string \<Rightarrow> string" where
  "rewritePackageText branding content =
     replaceAll (replaceAll content ''kilo-code'' (name branding)) ''kilocode'' (publisher branding)"

text \<open>Lines 61-73: the fields written into the parsed manifest.\<close>

definition brandPackageJson :: "BrandingConfig \<Rightarrow> 'n jsvalue \<Rightarrow> exn + 'n jsvalue" where
  "brandPackageJson branding packageJson =
     attempt (setProperty ''name'' (JString (name branding)) packageJson) (\<lambda>pj.
     attempt (setProperty ''publisher'' (JString (publisher branding)) pj) (\<lambda>pj.
     attempt (setProperty ''description'' (JString (description branding)) pj) (\<lambda>pj.
     attempt (if repository branding \<noteq> []
           then setProperty ''repository''
                  (JObject [(''type'', JString ''git''), (''url'', JString (repository branding))]) pj
           else Inr pj) (\<lambda>pj.
     if homepage branding \<noteq> [] then setProperty ''homepage'' (JString (homepage branding)) pj
     else Inr pj))))"

subsection \<open>Stage 2: the localization map\<close>

text \<open>Lines 91-97.\<close>

definition brandNls :: "BrandingConfig \<Rightarrow> 'n jsvalue \<Rightarrow> exn + 'n jsvalue" where
  "brandNls branding nlsJson =
     attempt (setProperty ''extension.displayName'' (JString (displayName branding)) nlsJson) (\<lambda>n.
     attempt (setProperty ''extension.description'' (JString (description branding)) n) (\<lambda>n.
     attempt (setProperty ''views.activitybar.title'' (JString (displayName branding)) n) (\<lambda>n.
     attempt (setProperty ''views.sidebar.name'' (JString (displayName branding)) n) (\<lambda>n.
     attempt (setProperty ''configuration.title'' (JString (displayName branding)) n) (\<lambda>n.
     attempt (setProperty ''views.contextMenu.label'' (JString (displayName branding)) n) (\<lambda>n.
     setProperty ''views.terminalMenu.label'' (JString (displayName branding)) n))))))"

definition nlsKeys :: "string list" where
  "nlsKeys = [''extension.displayName'', ''extension.description'', ''views.activitybar.title'',
     ''views.sidebar.name'', ''configuration.title'', ''views.contextMenu.label'',
     ''views.terminalMenu.label'']"

subsection \<open>Stage 4: the locale texts\<close>

text \<open>
  Line 144:
  \<^verbatim>\<open>(branding as any).shortName || branding.displayName.split(" ")[0] || branding.displayName\<close>.
  The empty string is falsy, and so is the \<^verbatim>\<open>undefined\<close> that index 0 of an empty array
  gives.
\<close>

definition firstToken :: "string \<Rightarrow> string" where
  "firstToken dn = (case str_split '' '' dn of [] \<Rightarrow> [] | t # _ \<Rightarrow> t)"

definition deriveShortName :: "BrandingConfig \<Rightarrow> string" where
  "deriveShortName branding =
     (let derived = (if firstToken (displayName branding) \<noteq> []
                     then firstToken (displayName branding) else displayName branding)
      in case shortName branding of
           None \<Rightarrow> derived
         | Some s \<Rightarrow> if s \<noteq> [] then s else derived)"

text \<open>Lines 159, 163 and 171: the three replacements on a locale file, in this order.\<close>

definition rewriteLocaleText :: "string \<Rightarrow> string \<Rightarrow> string \<Rightarrow> string" where
  "rewriteLocaleText sn dn content =
     replaceAll (replaceAll (replaceAll content ''Kilo Code'' sn) ''Kilo'' sn) ''Kilocode'' dn"

subsection \<open>The platform, the console and the outcome of a run\<close>

type_synonym path = string

text \<open>
  What the script takes from Node: \<^verbatim>\<open>__dirname\<close>, the \<^verbatim>\<open>path\<close> and \<^verbatim>\<open>fs\<close> functions it
  calls, \<^verbatim>\<open>JSON.parse\<close>, \<^verbatim>\<open>JSON.stringify(_, null, "\t")\<close>, and the typed view of the parsed
  configuration document (the unchecked annotation of line 32). A function that can throw
  returns the exception on the left.
\<close>

record ('fs, 'n) platform =
  dirname :: path
  path_join :: "path list \<Rightarrow> path"
  path_isAbsolute :: "path \<Rightarrow> bool"
  existsSync :: "'fs \<Rightarrow> path \<Rightarrow> bool"
  readFileSync :: "'fs \<Rightarrow> path \<Rightarrow> exn + string"
  writeFileSync :: "'fs \<Rightarrow> path \<Rightarrow> string \<Rightarrow> exn + 'fs"
  mkdirSync :: "'fs \<Rightarrow> path \<Rightarrow> exn + 'fs"
  copyFileSync :: "'fs \<Rightarrow> path \<Rightarrow> path \<Rightarrow> exn + 'fs"
  readdirSync :: "'fs \<Rightarrow> path \<Rightarrow> exn + string list"
  JSON_parse :: "string \<Rightarrow> exn + 'n jsvalue"
  JSON_stringify :: "'n jsvalue \<Rightarrow> string"
  asBranding :: "'n jsvalue \<Rightarrow> exn + BrandingConfig"

text \<open>A line on the console: \<^verbatim>\<open>console.log\<close>, \<^verbatim>\<open>console.error\<close>, \<^verbatim>\<open>console.warn\<close>.\<close>

datatype msg = Log string | Error string | Warn string | ErrorExn exn

text \<open>
  A stage either completes or throws; both leave the file system and the console as they
  are at that moment.
\<close>

datatype 'fs outcome = Completed 'fs "msg list" | Threw exn 'fs "msg list"

definition andThen :: "'fs outcome \<Rightarrow> ('fs \<Rightarrow> msg list \<Rightarrow> 'fs outcome) \<Rightarrow> 'fs outcome" where
  "andThen r f = (case r of Completed fs out \<Rightarrow> f fs out | Threw e fs out \<Rightarrow> Threw e fs out)"

text \<open>The process as it ends: exit status, file system, console.\<close>

datatype 'fs exit = Exit (status: nat) (final_fs: 'fs) (console: "msg list")

definition rootDir :: "('fs, 'n) platform \<Rightarrow> path" where
  "rootDir P = path_join P [dirname P, ''..'']"

definition brandingPath :: "('fs, 'n) platform \<Rightarrow> path" where
  "brandingPath P = path_join P [dirname P, ''branding.json'']"

text \<open>Lines 37 and 85: \<^verbatim>\<open>branding.files?.package || "src/package.json"\<close>, and the same for nls.\<close>

definition relativePackagePath :: "BrandingConfig \<Rightarrow> path" where
  "relativePackagePath branding =
     (case files branding of
        None \<Rightarrow> ''src/package.json''
      | Some f \<Rightarrow> (case package f of
                     None \<Rightarrow> ''src/package.json''
                   | Some p \<Rightarrow> if p \<noteq> [] then p else ''src/package.json''))"

definition relativeNlsPath :: "BrandingConfig \<Rightarrow> path" where
  "relativeNlsPath branding =
     (case files branding of
        None \<Rightarrow> ''src/package.nls.json''
      | Some f \<Rightarrow> (case nls f of
                     None \<Rightarrow> ''src/package.nls.json''
                   | Some p \<Rightarrow> if p \<noteq> [] then p else ''src/package.nls.json''))"

text \<open>Lines 35-82.\<close>

definition updatePackageJson ::
  "('fs, 'n) platform \<Rightarrow> BrandingConfig \<Rightarrow> 'fs \<Rightarrow> msg list \<Rightarrow> 'fs outcome" where
  "updatePackageJson P branding fs out =
     (let packageJsonPath = path_join P [rootDir P, relativePackagePath branding] in
      if existsSync P fs packageJsonPath then
        (case readFileSync P fs packageJsonPath of
           Inl e \<Rightarrow> Threw e fs out
         | Inr content \<Rightarrow>
             (case JSON_parse P (rewritePackageText branding content) of
                Inl e \<Rightarrow> Threw e fs out
              | Inr packageJson \<Rightarrow>
                  (case brandPackageJson branding packageJson of
                     Inl e \<Rightarrow> Threw e fs out
                   | Inr pj \<Rightarrow>
                       (case writeFileSync P fs packageJsonPath (JSON_stringify P pj @ [CHR 0x0A]) of
                          Inl e \<Rightarrow> Threw e fs out
                        | Inr fs' \<Rightarrow>
                            Completed fs' (out @ [Log (''Updated '' @ relativePackagePath branding)])))))
      else Completed fs (out @ [Error (relativePackagePath branding @ '' not found'')]))"

text \<open>Lines 84-103.\<close>

definition updateNls ::
  "('fs, 'n) platform \<Rightarrow> BrandingConfig \<Rightarrow> 'fs \<Rightarrow> msg list \<Rightarrow> 'fs outcome" where
  "updateNls P branding fs out =
     (let nlsPath = path_join P [rootDir P, relativeNlsPath branding] in
      if existsSync P fs nlsPath then
        (case readFileSync P fs nlsPath of
           Inl e \<Rightarrow> Threw e fs out
         | Inr content \<Rightarrow>
             (case JSON_parse P content of
                Inl e \<Rightarrow> Threw e fs out
              | Inr nlsJson \<Rightarrow>
                  (case brandNls branding nlsJson of
                     Inl e \<Rightarrow> Threw e fs out
                   | Inr n \<Rightarrow>
                       (case writeFileSync P fs nlsPath (JSON_stringify P n @ [CHR 0x0A]) of
                          Inl e \<Rightarrow> Threw e fs out
                        | Inr fs' \<Rightarrow>
                            Completed fs' (out @ [Log (''Updated '' @ relativeNlsPath branding)])))))
      else Completed fs (out @ [Error (relativeNlsPath branding @ '' not found'')]))"

subsection \<open>Stage 3: the icons\<close>

text \<open>
  \<^verbatim>\<open>Object.entries(branding.icons)\<close> (line 112) does not enumerate in the order of the
  document: the properties whose name is an array index come first, by ascending index, and
  the other properties follow in the order they were created. An array index is the
  canonical decimal form of an integer from 0 to 2^32 - 2: digits only, and no leading zero
  except for "0" itself.
\<close>

definition isDigit :: "char \<Rightarrow> bool" where
  "isDigit c \<longleftrightarrow> c \<in> set ''0123456789''"

definition decimalValue :: "string \<Rightarrow> int" where
  "decimalValue k = foldl (\<lambda>n c. 10 * n + (of_char c - 48)) 0 k"

definition arrayIndex :: "string \<Rightarrow> int option" where
  "arrayIndex k =
     (if k \<noteq> [] \<and> list_all isDigit k \<and> (k = ''0'' \<or> hd k \<noteq> CHR ''0'')
         \<and> decimalValue k < 2 ^ 32 - 1
      then Some (decimalValue k) else None)"

definition indexKey :: "string \<times> 'v \<Rightarrow> int" where
  "indexKey p = (case arrayIndex (fst p) of Some n \<Rightarrow> n | None \<Rightarrow> 0)"

definition Object_entries :: "(string \<times> 'v) list \<Rightarrow> (string \<times> 'v) list" where
  "Object_entries ps =
     sort_key indexKey (filter (\<lambda>p. arrayIndex (fst p) \<noteq> None) ps)
     @ filter (\<lambda>p. arrayIndex (fst p) = None) ps"

text \<open>Lines 119-127: the source path of one icon.\<close>

definition resolveIconSource :: "('fs, 'n) platform \<Rightarrow> 'fs \<Rightarrow> path \<Rightarrow> path" where
  "resolveIconSource P fs srcPath =
     (if \<not> path_isAbsolute P srcPath then
        (if \<not> existsSync P fs (path_join P [dirname P, srcPath])
         then path_join P [rootDir P, srcPath]
         else path_join P [dirname P, srcPath])
      else srcPath)"

text \<open>Lines 112-137: the loop over the entries.\<close>

fun copyIcons ::
  "('fs, 'n) platform \<Rightarrow> path \<Rightarrow> (string \<times> string) list \<Rightarrow> 'fs \<Rightarrow> msg list \<Rightarrow> 'fs outcome" where
  "copyIcons P iconsDir [] fs out = Completed fs out"
| "copyIcons P iconsDir ((destName, srcPath) # rest) fs out =
     (if srcPath = [] then copyIcons P iconsDir rest fs out
      else
        (let absoluteSrcPath = resolveIconSource P fs srcPath;
             destPath = path_join P [iconsDir, destName]
         in if existsSync P fs absoluteSrcPath then
              (case copyFileSync P fs absoluteSrcPath destPath of
                 Inl e \<Rightarrow> Threw e fs out
               | Inr fs' \<Rightarrow> copyIcons P iconsDir rest fs' (out @ [Log (''Copied icon '' @ destName)]))
            else copyIcons P iconsDir rest fs
                   (out @ [Warn (''Icon source not found: '' @ absoluteSrcPath
                                  @ '' (checked relative to rebranding/ and root)'')])))"

text \<open>Lines 105-138.\<close>

definition updateIcons ::
  "('fs, 'n) platform \<Rightarrow> BrandingConfig \<Rightarrow> 'fs \<Rightarrow> msg list \<Rightarrow> 'fs outcome" where
  "updateIcons P branding fs out =
     (case icons branding of
        None \<Rightarrow> Completed fs out
      | Some iconsObject \<Rightarrow>
          (let iconsDir = path_join P [rootDir P, ''src'', ''assets'', ''icons''] in
           if \<not> existsSync P fs iconsDir then
             (case mkdirSync P fs iconsDir of
                Inl e \<Rightarrow> Threw e fs out
              | Inr fs' \<Rightarrow> copyIcons P iconsDir (Object_entries iconsObject) fs' out)
           else copyIcons P iconsDir (Object_entries iconsObject) fs out))"

subsection \<open>Stage 4: the locale directory\<close>

text \<open>Lines 146-176: the body of \<^verbatim>\<open>files.forEach\<close>, one entry after the other.\<close>

fun rewriteLocaleFiles ::
  "('fs, 'n) platform \<Rightarrow> BrandingConfig \<Rightarrow> path \<Rightarrow> string list \<Rightarrow> 'fs \<Rightarrow> msg list \<Rightarrow> 'fs outcome" where
  "rewriteLocaleFiles P branding localesDir [] fs out = Completed fs out"
| "rewriteLocaleFiles P branding localesDir (file # rest) fs out =
     (if endsWith file ''.json'' then
        (let filePath = path_join P [localesDir, file] in
         case readFileSync P fs filePath of
           Inl e \<Rightarrow> Threw e fs out
         | Inr content \<Rightarrow>
             (case writeFileSync P fs filePath
                     (rewriteLocaleText (deriveShortName branding) (displayName branding) content) of
                Inl e \<Rightarrow> Threw e fs out
              | Inr fs' \<Rightarrow>
                  rewriteLocaleFiles P branding localesDir rest fs'
                    (out @ [Log (''Updated locale file: '' @ file)])))
      else rewriteLocaleFiles P branding localesDir rest fs out)"

text \<open>Lines 140-177.\<close>

definition updateLocales ::
  "('fs, 'n) platform \<Rightarrow> BrandingConfig \<Rightarrow> 'fs \<Rightarrow> msg list \<Rightarrow> 'fs outcome" where
  "updateLocales P branding fs out =
     (let localesDir = path_join P [rootDir P, ''webview-ui/src/i18n/locales/en''] in
      if existsSync P fs localesDir then
        (case readdirSync P fs localesDir of
           Inl e \<Rightarrow> Threw e fs out
         | Inr entries \<Rightarrow> rewriteLocaleFiles P branding localesDir entries fs out)
      else Completed fs out)"

subsection \<open>The whole run\<close>

text \<open>Line 32: the configuration document is read, parsed and taken as a BrandingConfig.\<close>

definition loadBranding :: "('fs, 'n) platform \<Rightarrow> 'fs \<Rightarrow> exn + BrandingConfig" where
  "loadBranding P fs =
     attempt (readFileSync P fs (brandingPath P)) (\<lambda>text.
     attempt (JSON_parse P text) (asBranding P))"

text \<open>The four stages, lines 35-177, after the configuration is loaded.\<close>

definition stages ::
  "('fs, 'n) platform \<Rightarrow> BrandingConfig \<Rightarrow> 'fs \<Rightarrow> msg list \<Rightarrow> 'fs outcome" where
  "stages P branding fs out =
     andThen (updatePackageJson P branding fs out) (\<lambda>fs out.
     andThen (updateNls P branding fs out) (\<lambda>fs out.
     andThen (updateIcons P branding fs out) (\<lambda>fs out.
     updateLocales P branding fs out)))"

text \<open>
  Lines 26-33 and 180. \<^verbatim>\<open>process.exit(1)\<close> ends the process at once with status 1. An
  exception rejects the promise of \<^verbatim>\<open>main\<close>; \<^verbatim>\<open>.catch(console.error)\<close> handles the
  rejection by printing it, and a process whose rejections are all handled ends with
  status 0, as one that ran to the end does.
\<close>

definition main :: "('fs, 'n) platform \<Rightarrow> 'fs \<Rightarrow> 'fs exit" where
  "main P fs =
     (if \<not> existsSync P fs (brandingPath P)
      then Exit 1 fs [Error ''branding.json not found in rebranding directory.'']
      else
        (case loadBranding P fs of
           Inl e \<Rightarrow> Exit 0 fs [ErrorExn e]
         | Inr branding \<Rightarrow>
             (case stages P branding fs [Log (''Applying branding: '' @ name branding)] of
                Completed fs' out \<Rightarrow> Exit 0 fs' out
              | Threw e fs' out \<Rightarrow> Exit 0 fs' (out @ [ErrorExn e]))))"

subsection \<open>Notions the properties are stated with\<close>

text \<open>
  A replacement text \<open>r\<close> and a token \<open>g\<close> cannot overlap: wherever a copy of \<open>r\<close> stands in
  a text, an occurrence of \<open>g\<close> lies wholly before it or wholly behind it. For this, \<open>r\<close> is
  not part of \<open>g\<close> (so \<open>r\<close> is not empty), \<open>g\<close> is not part of \<open>r\<close>, no non-empty start of
  \<open>g\<close> ends \<open>r\<close> and no non-empty end of \<open>g\<close> starts \<open>r\<close>.
\<close>

definition overlap_free :: "'a list \<Rightarrow> 'a list \<Rightarrow> bool" where
  "overlap_free r g \<longleftrightarrow>
     \<not> sublist r g \<and> \<not> sublist g r \<and>
     (\<forall>x \<in> set (prefixes g). x \<noteq> [] \<longrightarrow> \<not> suffix x r) \<and>
     (\<forall>x \<in> set (suffixes g). x \<noteq> [] \<longrightarrow> \<not> prefix x r)"

text \<open>
  The derivation of the short name as the specification words it: the first
  whitespace-delimited token of the display name, and the whole display name when there is
  none.
\<close>

definition isWhitespace :: "char \<Rightarrow> bool" where
  "isWhitespace c \<longleftrightarrow> c \<in> {CHR '' '', CHR 0x09, CHR 0x0A, CHR 0x0B, CHR 0x0C, CHR 0x0D}"

definition spec_shortName :: "string \<Rightarrow> string" where
  "spec_shortName dn =
     (let t = takeWhile (\<lambda>c. \<not> isWhitespace c) dn in if t = [] then dn else t)"

text \<open>The console lines of the icons whose source is missing, in order.\<close>

definition missingWarnings :: "('fs, 'n) platform \<Rightarrow> 'fs \<Rightarrow> (string \<times> string) list \<Rightarrow> msg list" where
  "missingWarnings P fs pairs =
     concat (map (\<lambda>(destName, srcPath).
        if srcPath = [] then []
        else [Warn (''Icon source not found: '' @ resolveIconSource P fs srcPath
                     @ '' (checked relative to rebranding/ and root)'')]) pairs)"

subsection \<open>Example inputs\<close>

text \<open>
  An in-memory platform for the examples: a file system as a list of paths with a file or a
  directory each, paths joined by a slash, and JSON functions that know the empty object
  only (every other text is rejected, as \<^verbatim>\<open>JSON.parse("{")\<close> is).
\<close>

datatype node = File string | Dir "string list"

type_synonym memfs = "(path \<times> node) list"

definition mem_exists :: "memfs \<Rightarrow> path \<Rightarrow> bool" where
  "mem_exists fs p = (map_of fs p \<noteq> None)"

definition mem_read :: "memfs \<Rightarrow> path \<Rightarrow> exn + string" where
  "mem_read fs p =
     (case map_of fs p of
        Some (File c) \<Rightarrow> Inr c
      | Some (Dir _) \<Rightarrow> Inl (SystemError ''EISDIR'')
      | None \<Rightarrow> Inl (SystemError ''ENOENT''))"

definition mem_write :: "memfs \<Rightarrow> path \<Rightarrow> string \<Rightarrow> exn + memfs" where
  "mem_write fs p c =
     (case map_of fs p of
        Some (Dir _) \<Rightarrow> Inl (SystemError ''EISDIR'')
      | _ \<Rightarrow> Inr (assign p (File c) fs))"

definition mem_readdir :: "memfs \<Rightarrow> path \<Rightarrow> exn + string list" where
  "mem_readdir fs p =
     (case map_of fs p of
        Some (Dir names) \<Rightarrow> Inr names
      | Some (File _) \<Rightarrow> Inl (SystemError ''ENOTDIR'')
      | None \<Rightarrow> Inl (SystemError ''ENOENT''))"

definition jackConfig :: BrandingConfig where
  "jackConfig = \<lparr> name = ''jack-code'', displayName = ''Jack Assistant'', publisher = ''jackcode'',
     description = ''Jack helps'', outputChannelName = ''Jack'',
     repository = ''https://example.org/jack.git'', homepage = [],
     files = None, icons = Some [(''logo.png'', ''missing.png''), (''skip.png'', []), (''icon.png'', ''/art/icon.png'')],
     shortName = None \<rparr>"

definition memPlatform :: "(memfs, nat) platform" where
  "memPlatform = \<lparr> dirname = ''/repo/rebranding'',
     path_join = str_join ''/'',
     path_isAbsolute = prefix ''/'',
     existsSync = mem_exists,
     readFileSync = mem_read,
     writeFileSync = mem_write,
     mkdirSync = (\<lambda>fs p. Inr (assign p (Dir []) fs)),
     copyFileSync = (\<lambda>fs src dst. attempt (mem_read fs src) (mem_write fs dst)),
     readdirSync = mem_readdir,
     JSON_parse = (\<lambda>s. if s = ''{}'' then Inr (JObject []) else Inl (SyntaxError ''Unexpected end of JSON input'')),
     JSON_stringify = (\<lambda>v. ''{}''),
     asBranding = (\<lambda>v. Inr jackConfig) \<rparr>"

text \<open>A configuration whose new name contains the old one.\<close>

definition nestedConfig :: BrandingConfig where
  "nestedConfig = jackConfig \<lparr> name := ''kilo-code-pro'', repository := [] \<rparr>"

text \<open>The configuration of Jack without a repository.\<close>

definition plainConfig :: BrandingConfig where
  "plainConfig = jackConfig \<lparr> repository := [] \<rparr>"

text \<open>Icons of which two are named by a number.\<close>

definition numberedConfig :: BrandingConfig where
  "numberedConfig = jackConfig \<lparr> icons := Some [(''b.png'', ''/art/icon.png''), (''2'', ''missing.png''),
     (''a.png'', ''/art/icon.png''), (''1'', ''/art/icon.png'')] \<rparr>"

text \<open>
  JSON for the examples of whole stages. \<open>prettyText\<close> is what
  \<^verbatim>\<open>JSON.stringify(_, null, "\t")\<close> gives for an object of strings that need no escape, and
  \<open>compactText\<close> is the same object on one line. \<open>example_parse\<close> reads the two forms of the
  documents listed in \<open>exampleDocuments\<close>, as \<^verbatim>\<open>JSON.parse\<close> does, and rejects every other
  text.
\<close>

definition quote :: "string \<Rightarrow> string" where
  "quote s = [CHR 0x22] @ s @ [CHR 0x22]"

fun valueText :: "nat jsvalue \<Rightarrow> string" where
  "valueText (JString s) = quote s"
| "valueText _ = ''null''"

fun compactText :: "nat jsvalue \<Rightarrow> string" where
  "compactText (JObject ps) =
     ''{'' @ str_join '','' (map (\<lambda>p. quote (fst p) @ '':'' @ valueText (snd p)) ps) @ ''}''"
| "compactText v = valueText v"

fun prettyText :: "nat jsvalue \<Rightarrow> string" where
  "prettyText (JObject ps) =
     (if ps = [] then ''{}''
      else ''{'' @ [CHR 0x0A]
           @ str_join ('','' @ [CHR 0x0A])
               (map (\<lambda>p. [CHR 0x09] @ quote (fst p) @ '': '' @ valueText (snd p)) ps)
           @ [CHR 0x0A] @ ''}'')"
| "prettyText v = valueText v"

definition exampleDocuments :: "nat jsvalue list" where
  "exampleDocuments =
     [JObject [(''name'', JString ''kilo-code-pro''), (''main'', JString ''kilo-code-pro.js'')],
      JObject [(''name'', JString ''kilo-code-pro-pro''), (''main'', JString ''kilo-code-pro-pro.js''),
               (''publisher'', JString ''jackcode''), (''description'', JString ''Jack helps'')],
      JObject [(''name'', JString ''jack-code''), (''main'', JString ''jack-code.js'')],
      JObject [(''name'', JString ''jack-code''), (''main'', JString ''jack-code.js''),
               (''publisher'', JString ''jackcode''), (''description'', JString ''Jack helps'')],
      JObject [(''extension.displayName'', JString ''Kilo Code'')],
      JObject [(''extension.displayName'', JString ''Jack Assistant''),
               (''extension.description'', JString ''Jack helps''),
               (''views.activitybar.title'', JString ''Jack Assistant''),
               (''views.sidebar.name'', JString ''Jack Assistant''),
               (''configuration.title'', JString ''Jack Assistant''),
               (''views.contextMenu.label'', JString ''Jack Assistant''),
               (''views.terminalMenu.label'', JString ''Jack Assistant'')]]"

definition example_parse :: "string \<Rightarrow> exn + nat jsvalue" where
  "example_parse s =
     (case find (\<lambda>v. compactText v = s \<or> prettyText v = s \<or> prettyText v @ [CHR 0x0A] = s)
             exampleDocuments of
        Some v \<Rightarrow> Inr v
      | None \<Rightarrow> Inl (SyntaxError ''Unexpected token''))"

definition jsonPlatform :: "(memfs, nat) platform" where
  "jsonPlatform = memPlatform \<lparr> JSON_parse := example_parse, JSON_stringify := prettyText \<rparr>"

text \<open>
  A checkout with a manifest that names the package and its main file, a localization map
  and one locale file.
\<close>

definition checkoutFs :: memfs where
  "checkoutFs =
     [(''/repo/rebranding/../src/package.json'',
         File (compactText (JObject [(''name'', JString ''kilo-code''), (''main'', JString ''kilo-code.js'')]))),
      (''/repo/rebranding/../src/package.nls.json'',
         File (compactText (JObject [(''extension.displayName'', JString ''Kilo Code'')]))),
      (''/repo/rebranding/../webview-ui/src/i18n/locales/en/chat.json'',
         File ''Kilo Code says Kilo'')]"

text \<open>A display name with a tab in it, and no explicit short name.\<close>

definition tabConfig :: BrandingConfig where
  "tabConfig = jackConfig \<lparr> displayName := ''Jack'' @ [CHR 0x09] @ ''Assistant'' \<rparr>"

text \<open>A checkout with the configuration and a manifest that is cut off after its first brace.\<close>

definition brokenManifestFs :: memfs where
  "brokenManifestFs =
     [(''/repo/rebranding/branding.json'', File ''{}''),
      (''/repo/rebranding/../src/package.json'', File ''{''),
      (''/repo/rebranding/../src/package.nls.json'', File ''{}'')]"

text \<open>A checkout with the configuration only.\<close>

definition bareFs :: memfs where
  "bareFs = [(''/repo/rebranding/branding.json'', File ''{}'')]"

text \<open>A checkout where the third icon of \<open>jackConfig\<close> has its source and the first has none.\<close>

definition iconFs :: memfs where
  "iconFs = [(''/art/icon.png'', File ''PNG''), (''/repo/rebranding/local.png'', File ''LOCAL''),
     (''/repo/rebranding/../src/assets/icons'', Dir [])]"

text \<open>What the stages write into that checkout for \<open>plainConfig\<close>.\<close>

definition jackManifest :: "nat jsvalue" where
  "jackManifest = JObject [(''name'', JString ''jack-code''), (''main'', JString ''jack-code.js''),
     (''publisher'', JString ''jackcode''), (''description'', JString ''Jack helps'')]"

definition jackManifestFs :: memfs where
  "jackManifestFs = assign ''/repo/rebranding/../src/package.json''
     (File (prettyText jackManifest @ [CHR 0x0A])) checkoutFs"

definition jackNlsMap :: "nat jsvalue" where
  "jackNlsMap = JObject [(''extension.displayName'', JString ''Jack Assistant''),
     (''extension.description'', JString ''Jack helps''),
     (''views.activitybar.title'', JString ''Jack Assistant''),
     (''views.sidebar.name'', JString ''Jack Assistant''),
     (''configuration.title'', JString ''Jack Assistant''),
     (''views.contextMenu.label'', JString ''Jack Assistant''),
     (''views.terminalMenu.label'', JString ''Jack Assistant'')]"

definition jackNlsFs :: memfs where
  "jackNlsFs = assign ''/repo/rebranding/../src/package.nls.json''
     (File (prettyText jackNlsMap @ [CHR 0x0A])) checkoutFs"

definition jackLocaleFs :: memfs where
  "jackLocaleFs = assign ''/repo/rebranding/../webview-ui/src/i18n/locales/en/chat.json''
     (File ''Jack says Jack'') checkoutFs"

text \<open>What the manifest stage writes for \<open>nestedConfig\<close>, the first and the second time.\<close>

definition nestedManifest1 :: "nat jsvalue" where
  "nestedManifest1 = JObject [(''name'', JString ''kilo-code-pro''), (''main'', JString ''kilo-code-pro.js''),
     (''publisher'', JString ''jackcode''), (''description'', JString ''Jack helps'')]"

definition nestedManifest2 :: "nat jsvalue" where
  "nestedManifest2 = JObject [(''name'', JString ''kilo-code-pro''), (''main'', JString ''kilo-code-pro-pro.js''),
     (''publisher'', JString ''jackcode''), (''description'', JString ''Jack helps'')]"

section \<open>Properties\<close>

subsection \<open>Replacement by split and join\<close>

lemma str_split_nonempty: "sep \<noteq> [] \<Longrightarrow> str_split sep s \<noteq> []"
  by (induction sep s rule: str_split.induct) (auto split: list.splits)

lemma str_join_Nil_Cons: "ps \<noteq> [] \<Longrightarrow> str_join r ([] # ps) = r @ str_join r ps"
  by (cases ps) simp_all

lemma str_join_Cons_Cons: "str_join r ((c # p) # ps) = c # str_join r (p # ps)"
  by (cases ps) simp_all

lemma replaceAll_Nil: "fnd \<noteq> [] \<Longrightarrow> replaceAll [] fnd rep = []"
  by (simp add: replaceAll_def)

text \<open>The scan, read off the result: a match is replaced and skipped, any other unit is kept.\<close>

lemma replaceAll_Cons:
  "fnd \<noteq> [] \<Longrightarrow> replaceAll (c # cs) fnd rep =
     (if prefix fnd (c # cs) then rep @ replaceAll (drop (length fnd) (c # cs)) fnd rep
      else c # replaceAll cs fnd rep)"
  using str_split_nonempty[of fnd cs] str_split_nonempty[of fnd "drop (length fnd) (c # cs)"]
  by (auto simp: replaceAll_def str_join_Nil_Cons str_join_Cons_Cons split: list.splits)

lemma replaceAll_self: "fnd \<noteq> [] \<Longrightarrow> replaceAll (fnd @ w) fnd rep = rep @ replaceAll w fnd rep"
  by (cases fnd) (auto simp: replaceAll_Cons)

text \<open>A text without the token is left as it is.\<close>

lemma replaceAll_id: "\<not> sublist fnd s \<Longrightarrow> replaceAll s fnd rep = s"
proof (induction s)
  case Nil
  then show ?case by (cases fnd) (simp_all add: replaceAll_Nil)
next
  case (Cons c cs)
  then have ne: "fnd \<noteq> []" by auto
  from Cons.prems have "\<not> prefix fnd (c # cs)" "\<not> sublist fnd cs"
    by (auto simp: sublist_Cons_right)
  with Cons.IH ne show ?case by (simp add: replaceAll_Cons)
qed

text \<open>
  Replacement distributes over a cut of the text that no occurrence of the token straddles.
\<close>

lemma replaceAll_append:
  assumes ne: "fnd \<noteq> []"
    and ns: "\<And>g1 g2. g1 \<noteq> [] \<Longrightarrow> g2 \<noteq> [] \<Longrightarrow> fnd = g1 @ g2 \<Longrightarrow> suffix g1 u \<Longrightarrow> prefix g2 v \<Longrightarrow> False"
  shows "replaceAll (u @ v) fnd rep = replaceAll u fnd rep @ replaceAll v fnd rep"
  using ns
proof (induction u rule: length_induct)
  case (1 u)
  show ?case
  proof (cases u)
    case Nil
    then show ?thesis using ne by (simp add: replaceAll_Nil)
  next
    case (Cons c cs)
    have straddle: "prefix fnd (u @ v) \<Longrightarrow> prefix fnd u"
    proof -
      assume p: "prefix fnd (u @ v)"
      then consider "prefix fnd u" | us where "fnd = u @ us" "prefix us v"
        by (auto simp: prefix_append)
      then show "prefix fnd u"
      proof cases
        case 1 then show ?thesis .
      next
        case 2
        show ?thesis
        proof (cases "us = []")
          case True with 2 show ?thesis by simp
        next
          case False
          with 1(2)[of u us] 2 Cons show ?thesis by auto
        qed
      qed
    qed
    show ?thesis
    proof (cases "prefix fnd u")
      case True
      then obtain w where w: "u = fnd @ w" by (auto simp: prefix_def)
      have lw: "length w < length u" using w ne by (cases fnd) auto
      have "replaceAll (w @ v) fnd rep = replaceAll w fnd rep @ replaceAll v fnd rep"
      proof (rule 1(1)[rule_format, OF lw])
        fix g1 g2 :: "'a list"
        assume "g1 \<noteq> []" "g2 \<noteq> []" "fnd = g1 @ g2" "suffix g1 w" "prefix g2 v"
        moreover have "suffix g1 u" using \<open>suffix g1 w\<close> w by (simp add: suffix_appendI)
        ultimately show False using 1(2) by blast
      qed
      moreover have "replaceAll (u @ v) fnd rep = rep @ replaceAll (w @ v) fnd rep"
        using w ne Cons by (cases fnd) (auto simp: replaceAll_Cons)
      moreover have "replaceAll u fnd rep = rep @ replaceAll w fnd rep"
        using w ne Cons by (cases fnd) (auto simp: replaceAll_Cons)
      ultimately show ?thesis by simp
    next
      case False
      with straddle have np: "\<not> prefix fnd (u @ v)" by blast
      have lc: "length cs < length u" using Cons by simp
      have "replaceAll (cs @ v) fnd rep = replaceAll cs fnd rep @ replaceAll v fnd rep"
      proof (rule 1(1)[rule_format, OF lc])
        fix g1 g2 :: "'a list"
        assume "g1 \<noteq> []" "g2 \<noteq> []" "fnd = g1 @ g2" "suffix g1 cs" "prefix g2 v"
        moreover have "suffix g1 u" using \<open>suffix g1 cs\<close> Cons by (simp add: suffix_ConsI)
        ultimately show False using 1(2) by blast
      qed
      then show ?thesis using False np ne Cons by (simp add: replaceAll_Cons)
    qed
  qed
qed


lemma replaceAll_append_hd:
  assumes "fnd \<noteq> []" and "v = [] \<or> hd v \<notin> set (tl fnd)"
  shows "replaceAll (u @ v) fnd rep = replaceAll u fnd rep @ replaceAll v fnd rep"
proof (rule replaceAll_append[OF assms(1)])
  fix g1 g2 :: "'a list"
  assume a: "g1 \<noteq> []" "g2 \<noteq> []" "fnd = g1 @ g2" "suffix g1 u" "prefix g2 v"
  then have "v \<noteq> []" "hd v = hd g2" by (auto simp: prefix_def)
  moreover have "hd g2 \<in> set (tl fnd)" using a by (cases g1) auto
  ultimately show False using assms(2) by simp
qed

lemma replaceAll_append_last:
  assumes "fnd \<noteq> []" and "u = [] \<or> last u \<notin> set (butlast fnd)"
  shows "replaceAll (u @ v) fnd rep = replaceAll u fnd rep @ replaceAll v fnd rep"
proof (rule replaceAll_append[OF assms(1)])
  fix g1 g2 :: "'a list"
  assume a: "g1 \<noteq> []" "g2 \<noteq> []" "fnd = g1 @ g2" "suffix g1 u" "prefix g2 v"
  then have "u \<noteq> []" "last u = last g1" by (auto simp: suffix_def)
  moreover have "last g1 \<in> set (butlast fnd)" using a by (simp add: butlast_append)
  ultimately show False using assms(2) by simp
qed

text \<open>The pieces of a split: each is part of the text, and none contains the separator.\<close>

lemma str_split_hd_prefix: "sep \<noteq> [] \<Longrightarrow> str_split sep s = p # ps \<Longrightarrow> prefix p s"
  by (induction sep s arbitrary: p ps rule: str_split.induct)
     (auto split: if_splits list.splits)

lemma str_split_piece_sublist: "sep \<noteq> [] \<Longrightarrow> p \<in> set (str_split sep s) \<Longrightarrow> sublist p s"
proof (induction sep s arbitrary: p rule: str_split.induct)
  case (1 sep)
  then show ?case by simp
next
  case (2 sep c cs)
  show ?case
  proof (cases "prefix sep (c # cs)")
    case True
    with 2 have "p = [] \<or> p \<in> set (str_split sep (drop (length sep) (c # cs)))" by auto
    then show ?thesis
    proof
      assume "p = []" then show ?thesis by simp
    next
      assume "p \<in> set (str_split sep (drop (length sep) (c # cs)))"
      with 2 True have "sublist p (drop (length sep) (c # cs))" by blast
      then show ?thesis using sublist_drop sublist_order.order_trans by blast
    qed
  next
    case False
    obtain q qs where q: "str_split sep cs = q # qs"
      using str_split_nonempty[OF 2(4), of cs] by (cases "str_split sep cs") auto
    with 2 False have "p = c # q \<or> p \<in> set qs" by auto
    then show ?thesis
    proof
      assume "p = c # q"
      moreover have "prefix q cs" using str_split_hd_prefix[OF 2(4) q] .
      ultimately show ?thesis by auto
    next
      assume "p \<in> set qs"
      with q 2 False have "sublist p cs" by auto
      then show ?thesis by (simp add: sublist_Cons_right)
    qed
  qed
qed

lemma str_split_piece_free: "sep \<noteq> [] \<Longrightarrow> p \<in> set (str_split sep s) \<Longrightarrow> \<not> sublist sep p"
proof (induction sep s arbitrary: p rule: str_split.induct)
  case (1 sep)
  then show ?case by simp
next
  case (2 sep c cs)
  show ?case
  proof (cases "prefix sep (c # cs)")
    case True
    with 2 show ?thesis by auto
  next
    case False
    obtain q qs where q: "str_split sep cs = q # qs"
      using str_split_nonempty[OF 2(4), of cs] by (cases "str_split sep cs") auto
    with 2 False have "p = c # q \<or> p \<in> set qs" by auto
    then show ?thesis
    proof
      assume pc: "p = c # q"
      have pq: "prefix q cs" using str_split_hd_prefix[OF 2(4) q] .
      have "\<not> sublist sep q" using 2 False q by auto
      moreover have "\<not> prefix sep (c # q)"
        using False pq by (meson Cons_prefix_Cons prefix_order.order_trans)
      ultimately show ?thesis using pc by (simp add: sublist_Cons_right)
    next
      assume "p \<in> set qs"
      with q 2 False show ?thesis by auto
    qed
  qed
qed

text \<open>
  An occurrence of a token next to a copy of a text it cannot overlap lies on one side of
  the copy.
\<close>

lemma sublist_through_copy:
  assumes ov: "overlap_free r g" and s: "sublist g (a @ r @ b)"
  shows "sublist g a \<or> sublist g b"
proof -
  from ov have nrg: "\<not> sublist r g" and ngr: "\<not> sublist g r"
    and ps: "\<And>x. prefix x g \<Longrightarrow> x \<noteq> [] \<Longrightarrow> \<not> suffix x r"
    and sp: "\<And>x. suffix x g \<Longrightarrow> x \<noteq> [] \<Longrightarrow> \<not> prefix x r"
    by (auto simp: overlap_free_def in_set_prefixes in_set_suffixes)
  have rb: "sublist g (r @ b) \<Longrightarrow> sublist g b"
  proof -
    assume "sublist g (r @ b)"
    then consider "sublist g r" | "sublist g b"
      | g1 g2 where "g = g1 @ g2" "suffix g1 r" "prefix g2 b"
      by (auto simp: sublist_append)
    then show "sublist g b"
    proof cases
      case 1 with ngr show ?thesis by simp
    next
      case 2 then show ?thesis .
    next
      case 3
      show ?thesis
      proof (cases "g1 = []")
        case True with 3 show ?thesis by auto
      next
        case False
        with ps[of g1] 3 show ?thesis by auto
      qed
    qed
  qed
  from s consider "sublist g a" | "sublist g (r @ b)"
    | g1 g2 where "g = g1 @ g2" "suffix g1 a" "prefix g2 (r @ b)"
    by (auto simp: sublist_append)
  then show ?thesis
  proof cases
    case 1 then show ?thesis by simp
  next
    case 2 with rb show ?thesis by simp
  next
    case 3
    from 3(3) consider "prefix g2 r" | us where "g2 = r @ us"
      by (auto simp: prefix_append)
    then show ?thesis
    proof cases
      case 1
      show ?thesis
      proof (cases "g2 = []")
        case True with 3 show ?thesis by auto
      next
        case False
        with sp[of g2] 3 1 show ?thesis by (auto simp: suffix_def)
      qed
    next
      case 2
      with 3 have "sublist r g" by (auto simp: sublist_def)
      with nrg show ?thesis by simp
    qed
  qed
qed

lemma str_join_free:
  "overlap_free r g \<Longrightarrow> \<forall>p \<in> set ps. \<not> sublist g p \<Longrightarrow> ps \<noteq> [] \<Longrightarrow> \<not> sublist g (str_join r ps)"
proof (induction r ps rule: str_join.induct)
  case (1 sep)
  then show ?case by simp
next
  case (2 sep p)
  then show ?case by simp
next
  case (3 sep p q ps)
  then have "\<not> sublist g (str_join sep (q # ps))" by simp
  moreover have "\<not> sublist g p" using 3 by simp
  ultimately show ?case using sublist_through_copy[OF 3(2), of p "str_join sep (q # ps)"] by auto
qed

lemma replaceAll_removes:
  assumes "fnd \<noteq> []" "overlap_free rep fnd"
  shows "\<not> sublist fnd (replaceAll s fnd rep)"
  unfolding replaceAll_def
  by (rule str_join_free[OF assms(2)])
     (use assms(1) in \<open>auto simp: str_split_piece_free str_split_nonempty\<close>)

lemma replaceAll_keeps_free:
  assumes "fnd \<noteq> []" "overlap_free rep g" "\<not> sublist g s"
  shows "\<not> sublist g (replaceAll s fnd rep)"
  unfolding replaceAll_def
proof (rule str_join_free[OF assms(2)])
  show "\<forall>p\<in>set (str_split fnd s). \<not> sublist g p"
    using str_split_piece_sublist[OF assms(1)] assms(3) sublist_order.order_trans by blast
  show "str_split fnd s \<noteq> []" using assms(1) by (rule str_split_nonempty)
qed

text \<open>
  Every occurrence of a token whose first unit does not come again in it is replaced, and
  the text before and after is rewritten on its own.
\<close>

lemma replaceAll_occurrence:
  assumes "fnd \<noteq> []" "hd fnd \<notin> set (tl fnd)"
  shows "replaceAll (u @ fnd @ v) fnd rep = replaceAll u fnd rep @ rep @ replaceAll v fnd rep"
proof -
  have "replaceAll (u @ (fnd @ v)) fnd rep = replaceAll u fnd rep @ replaceAll (fnd @ v) fnd rep"
    using assms by (intro replaceAll_append_hd) auto
  then show ?thesis using assms(1) by (simp add: replaceAll_self)
qed

text \<open>A stretch of text that the token cannot overlap passes through unchanged.\<close>

lemma replaceAll_keeps_copy:
  assumes ne: "fnd \<noteq> []" and ov: "overlap_free m fnd"
  shows "replaceAll (u @ m @ v) fnd rep = replaceAll u fnd rep @ m @ replaceAll v fnd rep"
proof -
  from ov have nmf: "\<not> sublist m fnd" and nfm: "\<not> sublist fnd m"
    and ps: "\<And>x. prefix x fnd \<Longrightarrow> x \<noteq> [] \<Longrightarrow> \<not> suffix x m"
    and sp: "\<And>x. suffix x fnd \<Longrightarrow> x \<noteq> [] \<Longrightarrow> \<not> prefix x m"
    by (auto simp: overlap_free_def in_set_prefixes in_set_suffixes)
  have a: "replaceAll (u @ (m @ v)) fnd rep = replaceAll u fnd rep @ replaceAll (m @ v) fnd rep"
  proof (rule replaceAll_append[OF ne])
    fix g1 g2 :: "'a list"
    assume h: "g1 \<noteq> []" "g2 \<noteq> []" "fnd = g1 @ g2" "suffix g1 u" "prefix g2 (m @ v)"
    from h(5) consider "prefix g2 m" | us where "g2 = m @ us" by (auto simp: prefix_append)
    then show False
    proof cases
      case 1
      moreover have "suffix g2 fnd" using h(3) by (simp add: suffix_def)
      ultimately show False using sp[of g2] h(2) by simp
    next
      case 2
      with h(3) have "sublist m fnd" by (auto simp: sublist_def)
      with nmf show False by simp
    qed
  qed
  have b: "replaceAll (m @ v) fnd rep = replaceAll m fnd rep @ replaceAll v fnd rep"
  proof (rule replaceAll_append[OF ne])
    fix g1 g2 :: "'a list"
    assume h: "g1 \<noteq> []" "g2 \<noteq> []" "fnd = g1 @ g2" "suffix g1 m" "prefix g2 v"
    have "prefix g1 fnd" using h(3) by simp
    then show False using ps[of g1] h(1,4) by simp
  qed
  show ?thesis using a b replaceAll_id[OF nfm] by simp
qed

subsection \<open>The locale texts of the specification's example\<close>

text \<open>
  C1. With shortName "Jack" and displayName "Jack Assistant", the three replacements of the
  locale stage turn "Kilo Code has a question" into "Jack has a question" and "Kilo said hi"
  into "Jack said hi". They turn "Kilocode settings" into "Jackcode settings", not into
  "Jack Assistant settings": the second replacement rewrites the "Kilo" of "Kilocode" before
  the third one, written for that word, can see it. The third replacement alone gives
  "Jack Assistant settings".
\<close>

theorem C1_locale_examples:
  "rewriteLocaleText ''Jack'' ''Jack Assistant'' ''Kilo Code has a question'' = ''Jack has a question''
   \<and> rewriteLocaleText ''Jack'' ''Jack Assistant'' ''Kilo said hi'' = ''Jack said hi''
   \<and> rewriteLocaleText ''Jack'' ''Jack Assistant'' ''Kilocode settings'' = ''Jackcode settings''
   \<and> rewriteLocaleText ''Jack'' ''Jack Assistant'' ''Kilocode settings'' \<noteq> ''Jack Assistant settings''
   \<and> replaceAll ''Kilocode settings'' ''Kilocode'' ''Jack Assistant'' = ''Jack Assistant settings''"
  by code_simp

subsection \<open>The text of the manifest\<close>

text \<open>
  C2. The manifest text is rewritten by replacing "kilo-code" with the configured name and,
  in the result, "kilocode" with the configured publisher. Each replacement takes every
  occurrence, wherever it stands and whatever surrounds it: the text before and the text
  after an occurrence are rewritten on their own. With name "jack-code" and publisher
  "jackcode", every text that contains "kilo-code.someView" and "onView:kilocode.Provider"
  is rewritten to a text that contains "jack-code.someView" and "onView:jackcode.Provider"
  and neither "kilo-code" nor "kilocode".
\<close>

theorem C2_manifest_text:
  "rewritePackageText b t =
     replaceAll (replaceAll t ''kilo-code'' (name b)) ''kilocode'' (publisher b)
   \<and> replaceAll (u @ ''kilo-code'' @ v) ''kilo-code'' (name b) =
       replaceAll u ''kilo-code'' (name b) @ name b @ replaceAll v ''kilo-code'' (name b)
   \<and> replaceAll (u @ ''kilocode'' @ v) ''kilocode'' (publisher b) =
       replaceAll u ''kilocode'' (publisher b) @ publisher b @ replaceAll v ''kilocode'' (publisher b)
   \<and> (name b = ''jack-code'' \<and> publisher b = ''jackcode''
        \<and> sublist ''kilo-code.someView'' t \<and> sublist ''onView:kilocode.Provider'' t
      \<longrightarrow> sublist ''jack-code.someView'' (rewritePackageText b t)
        \<and> sublist ''onView:jackcode.Provider'' (rewritePackageText b t)
        \<and> \<not> sublist ''kilo-code'' (rewritePackageText b t)
        \<and> \<not> sublist ''kilocode'' (rewritePackageText b t))"
proof (intro conjI impI)
  show "rewritePackageText b t =
     replaceAll (replaceAll t ''kilo-code'' (name b)) ''kilocode'' (publisher b)"
    by (simp add: rewritePackageText_def)
  show "replaceAll (u @ ''kilo-code'' @ v) ''kilo-code'' (name b) =
       replaceAll u ''kilo-code'' (name b) @ name b @ replaceAll v ''kilo-code'' (name b)"
    by (rule replaceAll_occurrence) simp_all
  show "replaceAll (u @ ''kilocode'' @ v) ''kilocode'' (publisher b) =
       replaceAll u ''kilocode'' (publisher b) @ publisher b @ replaceAll v ''kilocode'' (publisher b)"
    by (rule replaceAll_occurrence) simp_all
next
  assume h: "name b = ''jack-code'' \<and> publisher b = ''jackcode''
        \<and> sublist ''kilo-code.someView'' t \<and> sublist ''onView:kilocode.Provider'' t"
  let ?S1 = "\<lambda>x. replaceAll x ''kilo-code'' ''jack-code''"
  let ?S2 = "\<lambda>x. replaceAll x ''kilocode'' ''jackcode''"
  have R: "rewritePackageText b t = ?S2 (?S1 t)"
    using h by (simp add: rewritePackageText_def)
  have o1: "overlap_free ''jack-code'' ''kilo-code''" by code_simp
  have o2: "overlap_free ''jackcode'' ''kilo-code''" by code_simp
  have o3: "overlap_free ''jackcode'' ''kilocode''" by code_simp
  have o4: "overlap_free ''.someView'' ''kilo-code''" by code_simp
  have o5: "overlap_free ''jack-code.someView'' ''kilocode''" by code_simp
  have o6: "overlap_free ''onView:kilocode.Provider'' ''kilo-code''" by code_simp
  have o7: "overlap_free ''onView:'' ''kilocode''" by code_simp
  have o8: "overlap_free ''.Provider'' ''kilocode''" by code_simp
  from h obtain u1 v1 where t1: "t = u1 @ ''kilo-code.someView'' @ v1"
    by (auto simp: sublist_def)
  have "?S1 t = ?S1 u1 @ ''jack-code'' @ ?S1 ([] @ ''.someView'' @ v1)"
    using replaceAll_occurrence[of "''kilo-code''" u1 "''.someView'' @ v1" "''jack-code''"] t1
    by simp
  also have "?S1 ([] @ ''.someView'' @ v1) = ''.someView'' @ ?S1 v1"
    by (subst replaceAll_keeps_copy[OF _ o4]) (simp_all add: replaceAll_Nil)
  finally have "?S1 t = ?S1 u1 @ ''jack-code.someView'' @ ?S1 v1" by simp
  then have "?S2 (?S1 t) = ?S2 (?S1 u1) @ ''jack-code.someView'' @ ?S2 (?S1 v1)"
    using replaceAll_keeps_copy[OF _ o5, of "?S1 u1" "?S1 v1" "''jackcode''"] by simp
  then show "sublist ''jack-code.someView'' (rewritePackageText b t)"
    unfolding R sublist_def by blast
  from h obtain u2 v2 where t2: "t = u2 @ ''onView:kilocode.Provider'' @ v2"
    by (auto simp: sublist_def)
  have "?S1 t = ?S1 u2 @ ''onView:kilocode.Provider'' @ ?S1 v2"
    unfolding t2 by (rule replaceAll_keeps_copy[OF _ o6]) simp
  then have "?S1 t = (?S1 u2 @ ''onView:'') @ ''kilocode'' @ (''.Provider'' @ ?S1 v2)" by simp
  then have "?S2 (?S1 t) = ?S2 (?S1 u2 @ ''onView:'' @ []) @ ''jackcode'' @ ?S2 ([] @ ''.Provider'' @ ?S1 v2)"
    using replaceAll_occurrence[of "''kilocode''" "?S1 u2 @ ''onView:''" "''.Provider'' @ ?S1 v2" "''jackcode''"]
    by simp
  also have "?S2 (?S1 u2 @ ''onView:'' @ []) = ?S2 (?S1 u2) @ ''onView:''"
    by (subst replaceAll_keeps_copy[OF _ o7]) (simp_all add: replaceAll_Nil)
  also have "?S2 ([] @ ''.Provider'' @ ?S1 v2) = ''.Provider'' @ ?S2 (?S1 v2)"
    by (subst replaceAll_keeps_copy[OF _ o8]) (simp_all add: replaceAll_Nil)
  finally have "?S2 (?S1 t) = ?S2 (?S1 u2) @ ''onView:jackcode.Provider'' @ ?S2 (?S1 v2)" by simp
  then show "sublist ''onView:jackcode.Provider'' (rewritePackageText b t)"
    unfolding R sublist_def by blast
  have n1: "\<not> sublist ''kilo-code'' (?S1 t)"
    by (rule replaceAll_removes[OF _ o1]) simp
  show "\<not> sublist ''kilo-code'' (rewritePackageText b t)"
    unfolding R by (rule replaceAll_keeps_free[OF _ o2 n1]) simp
  show "\<not> sublist ''kilocode'' (rewritePackageText b t)"
    unfolding R by (rule replaceAll_removes[OF _ o3]) simp
qed

theorem C2_manifest_text_witness:
  "name jackConfig = ''jack-code'' \<and> publisher jackConfig = ''jackcode''
   \<and> sublist ''kilo-code.someView'' ''[kilo-code.someView, onView:kilocode.Provider]''
   \<and> sublist ''onView:kilocode.Provider'' ''[kilo-code.someView, onView:kilocode.Provider]''
   \<and> sublist ''jack-code.someView''
        (rewritePackageText jackConfig ''[kilo-code.someView, onView:kilocode.Provider]'')
   \<and> sublist ''onView:jackcode.Provider''
        (rewritePackageText jackConfig ''[kilo-code.someView, onView:kilocode.Provider]'')
   \<and> \<not> sublist ''kilo-code''
        (rewritePackageText jackConfig ''[kilo-code.someView, onView:kilocode.Provider]'')
   \<and> \<not> sublist ''kilocode''
        (rewritePackageText jackConfig ''[kilo-code.someView, onView:kilocode.Provider]'')
   \<and> rewritePackageText jackConfig ''[kilo-code.someView, onView:kilocode.Provider]''
       = ''[jack-code.someView, onView:jackcode.Provider]''"
proof -
  have given: "name jackConfig = ''jack-code'' \<and> publisher jackConfig = ''jackcode''
     \<and> sublist ''kilo-code.someView'' ''[kilo-code.someView, onView:kilocode.Provider]''
     \<and> sublist ''onView:kilocode.Provider'' ''[kilo-code.someView, onView:kilocode.Provider]''"
    by code_simp
  have run: "rewritePackageText jackConfig ''[kilo-code.someView, onView:kilocode.Provider]''
       = ''[jack-code.someView, onView:jackcode.Provider]''"
    by code_simp
  from C2_manifest_text[of jackConfig "''[kilo-code.someView, onView:kilocode.Provider]''"] given
  have "sublist ''jack-code.someView''
        (rewritePackageText jackConfig ''[kilo-code.someView, onView:kilocode.Provider]'')
   \<and> sublist ''onView:jackcode.Provider''
        (rewritePackageText jackConfig ''[kilo-code.someView, onView:kilocode.Provider]'')
   \<and> \<not> sublist ''kilo-code''
        (rewritePackageText jackConfig ''[kilo-code.someView, onView:kilocode.Provider]'')
   \<and> \<not> sublist ''kilocode''
        (rewritePackageText jackConfig ''[kilo-code.someView, onView:kilocode.Provider]'')"
    by blast
  with given run show ?thesis by blast
qed

subsection \<open>The fields of the manifest and of the localization map\<close>

lemma map_of_assign: "map_of (assign k v ps) = (map_of ps)(k \<mapsto> v)"
  by (induction ps) auto

lemma assign_same: "map_of ps k = Some v \<Longrightarrow> assign k v ps = ps"
  by (induction ps) (auto split: if_splits)

lemma filter_assign: "\<not> keep k \<Longrightarrow> filter (\<lambda>p. keep (fst p)) (assign k v ps) = filter (\<lambda>p. keep (fst p)) ps"
  by (induction ps) auto

lemma filter_assign_in:
  "k \<in> set K \<Longrightarrow> filter (\<lambda>p. fst p \<notin> set K) (assign k v ps) = filter (\<lambda>p. fst p \<notin> set K) ps"
  by (rule filter_assign) simp

text \<open>
  C3. Whatever object the rewritten text parses to, the manifest stage sets its fields name,
  publisher and description to the configured values. It sets repository to the object
  with type "git" and the configured url when the configured repository is not empty, and
  leaves the field as it was otherwise; it sets homepage to the configured homepage when
  that is not empty, and leaves the field as it was otherwise.
\<close>

theorem C3_manifest_fields:
  "\<exists>pj. brandPackageJson b (JObject ps) = Inr pj
     \<and> getProperty ''name'' pj = Some (JString (name b))
     \<and> getProperty ''publisher'' pj = Some (JString (publisher b))
     \<and> getProperty ''description'' pj = Some (JString (description b))
     \<and> getProperty ''repository'' pj =
         (if repository b \<noteq> []
          then Some (JObject [(''type'', JString ''git''), (''url'', JString (repository b))])
          else map_of ps ''repository'')
     \<and> getProperty ''homepage'' pj =
         (if homepage b \<noteq> [] then Some (JString (homepage b)) else map_of ps ''homepage'')"
  by (simp add: brandPackageJson_def attempt_def map_of_assign)

theorem C3_manifest_fields_witness:
  "repository jackConfig \<noteq> [] \<and> homepage jackConfig = []
   \<and> brandPackageJson jackConfig
        (JObject [(''name'', JString ''kilo-code''), (''homepage'', JString ''https://kilocode.ai'')])
     = Inr (JObject [(''name'', JString ''jack-code''), (''homepage'', JString ''https://kilocode.ai''),
          (''publisher'', JString ''jackcode''), (''description'', JString ''Jack helps''),
          (''repository'', JObject [(''type'', JString ''git''),
                                    (''url'', JString ''https://example.org/jack.git'')])]
          :: nat jsvalue)"
proof -
  have run: "repository jackConfig \<noteq> [] \<and> homepage jackConfig = []
   \<and> brandPackageJson jackConfig
        (JObject [(''name'', JString ''kilo-code''), (''homepage'', JString ''https://kilocode.ai'')])
     = Inr (JObject [(''name'', JString ''jack-code''), (''homepage'', JString ''https://kilocode.ai''),
          (''publisher'', JString ''jackcode''), (''description'', JString ''Jack helps''),
          (''repository'', JObject [(''type'', JString ''git''),
                                    (''url'', JString ''https://example.org/jack.git'')])]
          :: nat jsvalue)"
    by code_simp
  show ?thesis
    using C3_manifest_fields[of jackConfig
        "[(''name'', JString ''kilo-code''), (''homepage'', JString ''https://kilocode.ai'')]
           :: (string \<times> nat jsvalue) list"]
    by - (rule run)
qed

text \<open>
  C5. On every localization map the stage assigns the seven known keys:
  extension.description from the configured description, the other six from the configured
  display name. Every other key keeps its value, and the other entries keep their order.
\<close>

theorem C5_nls_keys:
  "\<exists>n. brandNls b (JObject ps) = Inr n
     \<and> getProperty ''extension.displayName'' n = Some (JString (displayName b))
     \<and> getProperty ''extension.description'' n = Some (JString (description b))
     \<and> getProperty ''views.activitybar.title'' n = Some (JString (displayName b))
     \<and> getProperty ''views.sidebar.name'' n = Some (JString (displayName b))
     \<and> getProperty ''configuration.title'' n = Some (JString (displayName b))
     \<and> getProperty ''views.contextMenu.label'' n = Some (JString (displayName b))
     \<and> getProperty ''views.terminalMenu.label'' n = Some (JString (displayName b))
     \<and> (\<forall>k. k \<notin> set nlsKeys \<longrightarrow> getProperty k n = map_of ps k)
     \<and> filter (\<lambda>p. fst p \<notin> set nlsKeys) (properties n) = filter (\<lambda>p. fst p \<notin> set nlsKeys) ps"
proof -
  let ?d = "JString (displayName b) :: 'a jsvalue"
  let ?ps' = "assign ''views.terminalMenu.label'' ?d
     (assign ''views.contextMenu.label'' ?d
       (assign ''configuration.title'' ?d
         (assign ''views.sidebar.name'' ?d
           (assign ''views.activitybar.title'' ?d
             (assign ''extension.description'' (JString (description b))
               (assign ''extension.displayName'' ?d ps))))))"
  have run: "brandNls b (JObject ps) = Inr (JObject ?ps')"
    by (simp add: brandNls_def attempt_def)
  have mem: "''extension.displayName'' \<in> set nlsKeys" "''extension.description'' \<in> set nlsKeys"
    "''views.activitybar.title'' \<in> set nlsKeys" "''views.sidebar.name'' \<in> set nlsKeys"
    "''configuration.title'' \<in> set nlsKeys" "''views.contextMenu.label'' \<in> set nlsKeys"
    "''views.terminalMenu.label'' \<in> set nlsKeys"
    by (simp_all add: nlsKeys_def)
  have frame: "filter (\<lambda>p. fst p \<notin> set nlsKeys) (properties (JObject ?ps'))
      = filter (\<lambda>p. fst p \<notin> set nlsKeys) ps"
    by (simp only: properties.simps filter_assign_in[OF mem(1)] filter_assign_in[OF mem(2)]
        filter_assign_in[OF mem(3)] filter_assign_in[OF mem(4)] filter_assign_in[OF mem(5)]
        filter_assign_in[OF mem(6)] filter_assign_in[OF mem(7)])
  have others: "\<forall>k. k \<notin> set nlsKeys \<longrightarrow> getProperty k (JObject ?ps') = map_of ps k"
    by (simp add: map_of_assign nlsKeys_def)
  have known: "getProperty ''extension.displayName'' (JObject ?ps') = Some ?d"
    "getProperty ''extension.description'' (JObject ?ps') = Some (JString (description b))"
    "getProperty ''views.activitybar.title'' (JObject ?ps') = Some ?d"
    "getProperty ''views.sidebar.name'' (JObject ?ps') = Some ?d"
    "getProperty ''configuration.title'' (JObject ?ps') = Some ?d"
    "getProperty ''views.contextMenu.label'' (JObject ?ps') = Some ?d"
    "getProperty ''views.terminalMenu.label'' (JObject ?ps') = Some ?d"
    by (simp_all add: map_of_assign)
  show ?thesis using run known others frame by blast
qed

theorem C5_nls_keys_witness:
  "''command.open.title'' \<notin> set nlsKeys
   \<and> brandNls jackConfig (JObject [(''command.open.title'', JString ''Open Kilo Code''),
        (''extension.displayName'', JString ''Kilo Code'')])
     = Inr (JObject [(''command.open.title'', JString ''Open Kilo Code''),
        (''extension.displayName'', JString ''Jack Assistant''),
        (''extension.description'', JString ''Jack helps''),
        (''views.activitybar.title'', JString ''Jack Assistant''),
        (''views.sidebar.name'', JString ''Jack Assistant''),
        (''configuration.title'', JString ''Jack Assistant''),
        (''views.contextMenu.label'', JString ''Jack Assistant''),
        (''views.terminalMenu.label'', JString ''Jack Assistant'')] :: nat jsvalue)
   \<and> (\<exists>n. brandNls jackConfig (JObject [(''command.open.title'', JString ''Open Kilo Code''),
               (''extension.displayName'', JString ''Kilo Code'')]) = Inr (n :: nat jsvalue)
          \<and> getProperty ''command.open.title'' n = Some (JString ''Open Kilo Code''))"
proof -
  have given: "''command.open.title'' \<notin> set nlsKeys" by code_simp
  have run: "brandNls jackConfig (JObject [(''command.open.title'', JString ''Open Kilo Code''),
        (''extension.displayName'', JString ''Kilo Code'')])
     = Inr (JObject [(''command.open.title'', JString ''Open Kilo Code''),
        (''extension.displayName'', JString ''Jack Assistant''),
        (''extension.description'', JString ''Jack helps''),
        (''views.activitybar.title'', JString ''Jack Assistant''),
        (''views.sidebar.name'', JString ''Jack Assistant''),
        (''configuration.title'', JString ''Jack Assistant''),
        (''views.contextMenu.label'', JString ''Jack Assistant''),
        (''views.terminalMenu.label'', JString ''Jack Assistant'')] :: nat jsvalue)"
    by code_simp
  from C5_nls_keys[of jackConfig "[(''command.open.title'', JString ''Open Kilo Code''),
        (''extension.displayName'', JString ''Kilo Code'')] :: (string \<times> nat jsvalue) list"]
  obtain n :: "nat jsvalue" where
    n: "brandNls jackConfig (JObject [(''command.open.title'', JString ''Open Kilo Code''),
          (''extension.displayName'', JString ''Kilo Code'')]) = Inr n"
    and frame: "\<forall>k. k \<notin> set nlsKeys \<longrightarrow> getProperty k n
        = map_of [(''command.open.title'', JString ''Open Kilo Code''),
                  (''extension.displayName'', JString ''Kilo Code'')] k"
    by blast
  from frame given have "getProperty ''command.open.title'' n = Some (JString ''Open Kilo Code'')"
    by simp
  with n given run show ?thesis by blast
qed

subsection \<open>The icons\<close>

text \<open>
  C6. The source of an icon: an absolute path is taken as it is; a relative path is joined
  to the directory of the configuration file, and to the project root instead exactly when
  the first path does not exist.
\<close>

theorem C6_icon_source:
  "(path_isAbsolute P srcPath \<longrightarrow> resolveIconSource P fs srcPath = srcPath)
   \<and> (\<not> path_isAbsolute P srcPath \<longrightarrow>
        resolveIconSource P fs srcPath =
          (if existsSync P fs (path_join P [dirname P, srcPath])
           then path_join P [dirname P, srcPath]
           else path_join P [rootDir P, srcPath]))"
  by (simp add: resolveIconSource_def)

theorem C6_icon_source_witness:
  "path_isAbsolute memPlatform ''/art/icon.png''
   \<and> resolveIconSource memPlatform iconFs ''/art/icon.png'' = ''/art/icon.png''
   \<and> \<not> path_isAbsolute memPlatform ''missing.png''
   \<and> \<not> existsSync memPlatform iconFs (path_join memPlatform [dirname memPlatform, ''missing.png''])
   \<and> resolveIconSource memPlatform iconFs ''missing.png''
       = path_join memPlatform [rootDir memPlatform, ''missing.png'']
   \<and> \<not> path_isAbsolute memPlatform ''local.png''
   \<and> existsSync memPlatform iconFs (path_join memPlatform [dirname memPlatform, ''local.png''])
   \<and> resolveIconSource memPlatform iconFs ''local.png''
       = path_join memPlatform [dirname memPlatform, ''local.png'']"
proof -
  have given: "path_isAbsolute memPlatform ''/art/icon.png''
     \<and> \<not> path_isAbsolute memPlatform ''missing.png''
     \<and> \<not> existsSync memPlatform iconFs (path_join memPlatform [dirname memPlatform, ''missing.png''])
     \<and> \<not> path_isAbsolute memPlatform ''local.png''
     \<and> existsSync memPlatform iconFs (path_join memPlatform [dirname memPlatform, ''local.png''])"
    by code_simp
  show ?thesis
    using given C6_icon_source[of memPlatform "''/art/icon.png''" iconFs]
      C6_icon_source[of memPlatform "''missing.png''" iconFs]
      C6_icon_source[of memPlatform "''local.png''" iconFs]
    by presburger
qed

lemma copyIcons_append:
  "copyIcons P dir (xs @ ys) fs out = andThen (copyIcons P dir xs fs out) (copyIcons P dir ys)"
proof (induction xs arbitrary: fs out)
  case Nil
  show ?case by (simp add: andThen_def)
next
  case (Cons x xs)
  obtain d s where x: "x = (d, s)" by (cases x)
  show ?case unfolding x
    by (simp add: Cons.IH Let_def andThen_def split: sum.splits)
qed

lemma copyIcons_missing:
  "\<forall>(d, s) \<in> set pre. s = [] \<or> \<not> existsSync P fs (resolveIconSource P fs s) \<Longrightarrow>
   copyIcons P dir (pre @ rest) fs out = copyIcons P dir rest fs (out @ missingWarnings P fs pre)"
proof (induction pre arbitrary: out)
  case Nil
  show ?case by (simp add: missingWarnings_def)
next
  case (Cons x pre)
  obtain d s where x: "x = (d, s)" by (cases x)
  from Cons.prems have rest: "\<forall>(d, s) \<in> set pre. s = [] \<or> \<not> existsSync P fs (resolveIconSource P fs s)"
    and here: "s = [] \<or> \<not> existsSync P fs (resolveIconSource P fs s)"
    by (auto simp: x)
  show ?case unfolding x using here Cons.IH[OF rest]
    by (auto simp: Let_def missingWarnings_def)
qed

lemma Object_entries_plain:
  "list_all (\<lambda>p. arrayIndex (fst p) = None) m \<Longrightarrow> Object_entries m = m"
  by (simp add: Object_entries_def list_all_iff)

lemma Object_entries_set: "set (Object_entries m) = set m"
  by (auto simp: Object_entries_def)

lemma updateIcons_entries:
  "icons b = Some m \<Longrightarrow> existsSync P fs (path_join P [rootDir P, ''src'', ''assets'', ''icons'']) \<Longrightarrow>
   updateIcons P b fs out
     = copyIcons P (path_join P [rootDir P, ''src'', ''assets'', ''icons'']) (Object_entries m) fs out"
  by (simp add: updateIcons_def)

lemma updateIcons_entries_mkdir:
  "icons b = Some m \<Longrightarrow> \<not> existsSync P fs (path_join P [rootDir P, ''src'', ''assets'', ''icons'']) \<Longrightarrow>
   mkdirSync P fs (path_join P [rootDir P, ''src'', ''assets'', ''icons'']) = Inr fs' \<Longrightarrow>
   updateIcons P b fs out
     = copyIcons P (path_join P [rootDir P, ''src'', ''assets'', ''icons'']) (Object_entries m) fs' out"
  by (simp add: updateIcons_def)

text \<open>
  C7, as amended. The icons stage processes the pairs one after the other in the order
  Object.entries gives them: first the pairs whose name is an array index, by ascending
  index, then all other pairs in the order of the configuration; the same pairs, and in the
  order of the configuration when no name is an array index. A list in two parts is
  processed as the first part and then, from where that ends, the second. A pair with an
  empty source path is skipped with no line on the console. Pairs whose source is empty or
  missing only add their warnings: the pairs behind them are processed on the same file
  system, and a pair behind them whose source exists is handed to copyFileSync with its
  destination under the icons directory.
\<close>

theorem C7_icons_loop:
  "(icons b = Some m \<and> existsSync P fs (path_join P [rootDir P, ''src'', ''assets'', ''icons''])
      \<longrightarrow> updateIcons P b fs out
           = copyIcons P (path_join P [rootDir P, ''src'', ''assets'', ''icons''])
               (Object_entries m) fs out)
   \<and> (icons b = Some m \<and> \<not> existsSync P fs (path_join P [rootDir P, ''src'', ''assets'', ''icons''])
        \<and> mkdirSync P fs (path_join P [rootDir P, ''src'', ''assets'', ''icons'']) = Inr fs1
      \<longrightarrow> updateIcons P b fs out
           = copyIcons P (path_join P [rootDir P, ''src'', ''assets'', ''icons''])
               (Object_entries m) fs1 out)
   \<and> Object_entries m
       = sort_key indexKey (filter (\<lambda>p. arrayIndex (fst p) \<noteq> None) m)
         @ filter (\<lambda>p. arrayIndex (fst p) = None) m
   \<and> sorted (map indexKey (sort_key indexKey (filter (\<lambda>p. arrayIndex (fst p) \<noteq> None) m)))
   \<and> set (Object_entries m) = set m
   \<and> (list_all (\<lambda>p. arrayIndex (fst p) = None) m \<longrightarrow> Object_entries m = m)
   \<and> copyIcons P dir (xs @ ys) fs out = andThen (copyIcons P dir xs fs out) (copyIcons P dir ys)
   \<and> copyIcons P dir ((d, []) # rest) fs out = copyIcons P dir rest fs out
   \<and> ((\<forall>(d', s') \<in> set pre. s' = [] \<or> \<not> existsSync P fs (resolveIconSource P fs s'))
       \<longrightarrow> copyIcons P dir (pre @ rest) fs out
            = copyIcons P dir rest fs (out @ missingWarnings P fs pre))
   \<and> (s \<noteq> [] \<and> existsSync P fs (resolveIconSource P fs s)
       \<longrightarrow> copyIcons P dir ((d, s) # rest) fs out
            = (case copyFileSync P fs (resolveIconSource P fs s) (path_join P [dir, d]) of
                 Inl e \<Rightarrow> Threw e fs out
               | Inr fs' \<Rightarrow> copyIcons P dir rest fs' (out @ [Log (''Copied icon '' @ d)])))"
proof -
  have loop: "copyIcons P dir (xs @ ys) fs out = andThen (copyIcons P dir xs fs out) (copyIcons P dir ys)
   \<and> copyIcons P dir ((d, []) # rest) fs out = copyIcons P dir rest fs out
   \<and> ((\<forall>(d', s') \<in> set pre. s' = [] \<or> \<not> existsSync P fs (resolveIconSource P fs s'))
       \<longrightarrow> copyIcons P dir (pre @ rest) fs out
            = copyIcons P dir rest fs (out @ missingWarnings P fs pre))
   \<and> (s \<noteq> [] \<and> existsSync P fs (resolveIconSource P fs s)
       \<longrightarrow> copyIcons P dir ((d, s) # rest) fs out
            = (case copyFileSync P fs (resolveIconSource P fs s) (path_join P [dir, d]) of
                 Inl e \<Rightarrow> Threw e fs out
               | Inr fs' \<Rightarrow> copyIcons P dir rest fs' (out @ [Log (''Copied icon '' @ d)])))"
    using copyIcons_append[of P dir xs ys fs out] copyIcons_missing[of pre P fs dir rest out]
    by (simp add: Let_def)
  have order: "Object_entries m
       = sort_key indexKey (filter (\<lambda>p. arrayIndex (fst p) \<noteq> None) m)
         @ filter (\<lambda>p. arrayIndex (fst p) = None) m"
    "sorted (map indexKey (sort_key indexKey (filter (\<lambda>p. arrayIndex (fst p) \<noteq> None) m)))"
    by (simp_all add: Object_entries_def)
  show ?thesis
    using loop order Object_entries_set[of m] Object_entries_plain[of m]
      updateIcons_entries[of b m P fs out] updateIcons_entries_mkdir[of b m P fs fs1 out]
    by blast
qed

theorem C7_icons_loop_witness:
  "icons jackConfig = Some [(''logo.png'', ''missing.png''), (''skip.png'', []), (''icon.png'', ''/art/icon.png'')]
   \<and> existsSync memPlatform iconFs (path_join memPlatform [rootDir memPlatform, ''src'', ''assets'', ''icons''])
   \<and> list_all (\<lambda>p. arrayIndex (fst p) = None)
        [(''logo.png'', ''missing.png''), (''skip.png'', []), (''icon.png'', ''/art/icon.png'')]
   \<and> Object_entries [(''logo.png'', ''missing.png''), (''skip.png'', []), (''icon.png'', ''/art/icon.png'')]
       = [(''logo.png'', ''missing.png''), (''skip.png'', []), (''icon.png'', ''/art/icon.png'')]
   \<and> updateIcons memPlatform jackConfig iconFs []
       = copyIcons memPlatform (path_join memPlatform [rootDir memPlatform, ''src'', ''assets'', ''icons''])
           (Object_entries [(''logo.png'', ''missing.png''), (''skip.png'', []), (''icon.png'', ''/art/icon.png'')])
           iconFs []
   \<and> list_all (\<lambda>(d, s). s = [] \<or> \<not> existsSync memPlatform iconFs (resolveIconSource memPlatform iconFs s))
      [(''logo.png'', ''missing.png''), (''skip.png'', [])]
   \<and> ''/art/icon.png'' \<noteq> []
   \<and> existsSync memPlatform iconFs (resolveIconSource memPlatform iconFs ''/art/icon.png'')
   \<and> copyIcons memPlatform ''/icons''
        ([(''logo.png'', ''missing.png''), (''skip.png'', [])] @ [(''icon.png'', ''/art/icon.png'')])
        iconFs []
      = copyIcons memPlatform ''/icons'' [(''icon.png'', ''/art/icon.png'')] iconFs
          (missingWarnings memPlatform iconFs [(''logo.png'', ''missing.png''), (''skip.png'', [])])
   \<and> copyIcons memPlatform ''/icons'' [(''icon.png'', ''/art/icon.png'')] iconFs
          (missingWarnings memPlatform iconFs [(''logo.png'', ''missing.png''), (''skip.png'', [])])
      = Completed (iconFs @ [(''/icons/icon.png'', File ''PNG'')])
          [Warn ''Icon source not found: /repo/rebranding/../missing.png (checked relative to rebranding/ and root)'',
           Log ''Copied icon icon.png'']"
proof -
  have given: "list_all (\<lambda>(d, s). s = [] \<or> \<not> existsSync memPlatform iconFs (resolveIconSource memPlatform iconFs s))
      [(''logo.png'', ''missing.png''), (''skip.png'', [])]
   \<and> ''/art/icon.png'' \<noteq> []
   \<and> existsSync memPlatform iconFs (resolveIconSource memPlatform iconFs ''/art/icon.png'')"
    by code_simp
  have run: "copyIcons memPlatform ''/icons'' [(''icon.png'', ''/art/icon.png'')] iconFs
          (missingWarnings memPlatform iconFs [(''logo.png'', ''missing.png''), (''skip.png'', [])])
      = Completed (iconFs @ [(''/icons/icon.png'', File ''PNG'')])
          [Warn ''Icon source not found: /repo/rebranding/../missing.png (checked relative to rebranding/ and root)'',
           Log ''Copied icon icon.png'']"
    by code_simp
  from given have pre: "\<forall>(d, s) \<in> set [(''logo.png'', ''missing.png''), (''skip.png'', [])].
      s = [] \<or> \<not> existsSync memPlatform iconFs (resolveIconSource memPlatform iconFs s)"
    unfolding list_all_iff by blast
  from C7_icons_loop[where P = memPlatform and dir = "''/icons''"
      and pre = "[(''logo.png'', ''missing.png''), (''skip.png'', [])]"
      and rest = "[(''icon.png'', ''/art/icon.png'')]" and fs = iconFs and out = "[]"] pre
  have "copyIcons memPlatform ''/icons''
        ([(''logo.png'', ''missing.png''), (''skip.png'', [])] @ [(''icon.png'', ''/art/icon.png'')])
        iconFs []
      = copyIcons memPlatform ''/icons'' [(''icon.png'', ''/art/icon.png'')] iconFs
          ([] @ missingWarnings memPlatform iconFs [(''logo.png'', ''missing.png''), (''skip.png'', [])])"
    by blast
  then have "copyIcons memPlatform ''/icons''
        ([(''logo.png'', ''missing.png''), (''skip.png'', [])] @ [(''icon.png'', ''/art/icon.png'')])
        iconFs []
      = copyIcons memPlatform ''/icons'' [(''icon.png'', ''/art/icon.png'')] iconFs
          (missingWarnings memPlatform iconFs [(''logo.png'', ''missing.png''), (''skip.png'', [])])"
    by (simp only: append_Nil)
  then have old: "list_all (\<lambda>(d, s). s = [] \<or> \<not> existsSync memPlatform iconFs (resolveIconSource memPlatform iconFs s))
      [(''logo.png'', ''missing.png''), (''skip.png'', [])]
   \<and> ''/art/icon.png'' \<noteq> []
   \<and> existsSync memPlatform iconFs (resolveIconSource memPlatform iconFs ''/art/icon.png'')
   \<and> copyIcons memPlatform ''/icons''
        ([(''logo.png'', ''missing.png''), (''skip.png'', [])] @ [(''icon.png'', ''/art/icon.png'')])
        iconFs []
      = copyIcons memPlatform ''/icons'' [(''icon.png'', ''/art/icon.png'')] iconFs
          (missingWarnings memPlatform iconFs [(''logo.png'', ''missing.png''), (''skip.png'', [])])
   \<and> copyIcons memPlatform ''/icons'' [(''icon.png'', ''/art/icon.png'')] iconFs
          (missingWarnings memPlatform iconFs [(''logo.png'', ''missing.png''), (''skip.png'', [])])
      = Completed (iconFs @ [(''/icons/icon.png'', File ''PNG'')])
          [Warn ''Icon source not found: /repo/rebranding/../missing.png (checked relative to rebranding/ and root)'',
           Log ''Copied icon icon.png'']"
    using given run by blast
  have stage: "icons jackConfig = Some [(''logo.png'', ''missing.png''), (''skip.png'', []), (''icon.png'', ''/art/icon.png'')]
     \<and> existsSync memPlatform iconFs (path_join memPlatform [rootDir memPlatform, ''src'', ''assets'', ''icons''])
     \<and> list_all (\<lambda>p. arrayIndex (fst p) = None)
        [(''logo.png'', ''missing.png''), (''skip.png'', []), (''icon.png'', ''/art/icon.png'')]"
    by code_simp
  from C7_icons_loop[where P = memPlatform and b = jackConfig and fs = iconFs and out = "[]"
      and m = "[(''logo.png'', ''missing.png''), (''skip.png'', []), (''icon.png'', ''/art/icon.png'')]"]
    stage
  have new: "Object_entries [(''logo.png'', ''missing.png''), (''skip.png'', []), (''icon.png'', ''/art/icon.png'')]
       = [(''logo.png'', ''missing.png''), (''skip.png'', []), (''icon.png'', ''/art/icon.png'')]
   \<and> updateIcons memPlatform jackConfig iconFs []
       = copyIcons memPlatform (path_join memPlatform [rootDir memPlatform, ''src'', ''assets'', ''icons''])
           (Object_entries [(''logo.png'', ''missing.png''), (''skip.png'', []), (''icon.png'', ''/art/icon.png'')])
           iconFs []"
    by blast
  from stage new old show ?thesis by blast
qed

text \<open>
  C7 as stated has the pairs processed in input order for every icon mapping. With the
  names "b.png", "2", "a.png", "1" in this order, the stage processes "1", "2", "b.png",
  "a.png".
\<close>

theorem C7_icons_loop_counterexample:
  "icons numberedConfig = Some [(''b.png'', ''/art/icon.png''), (''2'', ''missing.png''),
       (''a.png'', ''/art/icon.png''), (''1'', ''/art/icon.png'')]
   \<and> Object_entries [(''b.png'', ''/art/icon.png''), (''2'', ''missing.png''),
         (''a.png'', ''/art/icon.png''), (''1'', ''/art/icon.png'')]
       = [(''1'', ''/art/icon.png''), (''2'', ''missing.png''),
          (''b.png'', ''/art/icon.png''), (''a.png'', ''/art/icon.png'')]
   \<and> updateIcons memPlatform numberedConfig iconFs []
       = Completed
           (iconFs @ [(''/repo/rebranding/../src/assets/icons/1'', File ''PNG''),
                      (''/repo/rebranding/../src/assets/icons/b.png'', File ''PNG''),
                      (''/repo/rebranding/../src/assets/icons/a.png'', File ''PNG'')])
           [Log ''Copied icon 1'',
            Warn ''Icon source not found: /repo/rebranding/../missing.png (checked relative to rebranding/ and root)'',
            Log ''Copied icon b.png'', Log ''Copied icon a.png'']"
  by code_simp

subsection \<open>The short name\<close>

lemma firstToken_takeWhile: "firstToken dn = takeWhile (\<lambda>c. c \<noteq> CHR '' '') dn"
proof (induction dn)
  case Nil
  show ?case by (simp add: firstToken_def)
next
  case (Cons c cs)
  then show ?case
    by (auto simp: firstToken_def split: list.splits)
qed

text \<open>
  C8, as amended. Without an explicit shortName, the short name is the part of the display
  name before its first space character, and the whole display name when that part is
  empty; a display name without a space is its own short name. Only the space character
  delimits: a tab does not.
\<close>

theorem C8_short_name:
  "shortName b = None \<longrightarrow>
     deriveShortName b =
       (if takeWhile (\<lambda>c. c \<noteq> CHR '' '') (displayName b) = [] then displayName b
        else takeWhile (\<lambda>c. c \<noteq> CHR '' '') (displayName b))
     \<and> (CHR '' '' \<notin> set (displayName b) \<longrightarrow> deriveShortName b = displayName b)"
  by (auto simp: deriveShortName_def firstToken_takeWhile Let_def takeWhile_eq_all_conv[THEN iffD2])

theorem C8_short_name_witness:
  "shortName jackConfig = None \<and> deriveShortName jackConfig = ''Jack''
   \<and> shortName tabConfig = None \<and> CHR '' '' \<notin> set (displayName tabConfig)
   \<and> deriveShortName tabConfig = displayName tabConfig"
proof -
  have given: "shortName jackConfig = None \<and> shortName tabConfig = None
     \<and> CHR '' '' \<notin> set (displayName tabConfig)"
    by code_simp
  have tw: "takeWhile (\<lambda>c. c \<noteq> CHR '' '') (displayName jackConfig) = ''Jack''"
    by code_simp
  from C8_short_name[of jackConfig] given tw have "deriveShortName jackConfig = ''Jack''"
    by simp
  moreover have "deriveShortName tabConfig = displayName tabConfig"
  proof -
    from given have none: "shortName tabConfig = None"
      and nospace: "CHR '' '' \<notin> set (displayName tabConfig)"
      by blast+
    from mp[OF C8_short_name[of tabConfig] none]
    have "CHR '' '' \<notin> set (displayName tabConfig)
        \<longrightarrow> deriveShortName tabConfig = displayName tabConfig"
      by (rule conjunct2)
    then show ?thesis using nospace by (rule mp)
  qed
  ultimately show ?thesis using given by blast
qed

text \<open>
  C8 as stated fails where the display name has whitespace other than a space: for
  "Jack<TAB>Assistant" the first whitespace-delimited token is "Jack", and the code takes the
  whole display name.
\<close>

theorem C8_short_name_counterexample:
  "shortName tabConfig = None
   \<and> displayName tabConfig = ''Jack'' @ [CHR 0x09] @ ''Assistant''
   \<and> deriveShortName tabConfig = ''Jack'' @ [CHR 0x09] @ ''Assistant''
   \<and> spec_shortName (displayName tabConfig) = ''Jack''"
  by code_simp

subsection \<open>The locale replacements and the word "Kilocode"\<close>

lemma no_Kilo_after_second_step:
  "overlap_free sn ''Kilo'' \<Longrightarrow> \<not> sublist ''Kilo'' (replaceAll x ''Kilo'' sn)"
  by (rule replaceAll_removes) simp_all

lemma locale_third_step_idle:
  assumes "\<not> sublist ''Kilo'' x"
  shows "\<not> sublist ''Kilo Code'' x" "\<not> sublist ''Kilocode'' x"
proof -
  have "sublist ''Kilo'' ''Kilo Code''" "sublist ''Kilo'' ''Kilocode''"
    by (simp_all add: sublist_Cons_right)
  with assms show "\<not> sublist ''Kilo Code'' x" "\<not> sublist ''Kilocode'' x"
    using sublist_order.order_trans by blast+
qed

lemma second_step_on_Kilocode:
  "replaceAll (replaceAll (u @ ''Kilocode'' @ v) ''Kilo Code'' sn) ''Kilo'' sn =
     replaceAll (replaceAll u ''Kilo Code'' sn) ''Kilo'' sn @ sn @ ''code''
       @ replaceAll (replaceAll v ''Kilo Code'' sn) ''Kilo'' sn"
proof -
  let ?A = "\<lambda>x. replaceAll x ''Kilo Code'' sn"
  let ?B = "\<lambda>x. replaceAll x ''Kilo'' sn"
  have o1: "overlap_free ''Kilocode'' ''Kilo Code''" by code_simp
  have o2: "overlap_free ''code'' ''Kilo''" by code_simp
  have "?A (u @ ''Kilocode'' @ v) = ?A u @ ''Kilocode'' @ ?A v"
    by (rule replaceAll_keeps_copy[OF _ o1]) simp
  then have "?A (u @ ''Kilocode'' @ v) = ?A u @ ''Kilo'' @ (''code'' @ ?A v)" by simp
  then have "?B (?A (u @ ''Kilocode'' @ v)) = ?B (?A u) @ sn @ ?B ([] @ ''code'' @ ?A v)"
    using replaceAll_occurrence[of "''Kilo''" "?A u" "''code'' @ ?A v" sn] by simp
  also have "?B ([] @ ''code'' @ ?A v) = ''code'' @ ?B (?A v)"
    by (subst replaceAll_keeps_copy[OF _ o2]) (simp_all add: replaceAll_Nil)
  finally show ?thesis by simp
qed

text \<open>
  C10, as amended. For every locale text and every short name, the second replacement also
  rewrites the "Kilo" of every "Kilocode" of the input: after it, each such occurrence
  stands as the short name followed by "code", between the rewritten text before and the
  rewritten text after. For every short name that cannot overlap "Kilo" (it is not empty,
  neither contains the other, and no end of one is a start of the other), the text after
  the second replacement contains no "Kilocode", so the third replacement changes nothing
  and each "Kilocode" of the input is the short name followed by "code" in the output.
\<close>

theorem C10_Kilocode_rewritten_by_second_step:
  "replaceAll (replaceAll (u @ ''Kilocode'' @ v) ''Kilo Code'' sn) ''Kilo'' sn =
     replaceAll (replaceAll u ''Kilo Code'' sn) ''Kilo'' sn @ sn @ ''code''
       @ replaceAll (replaceAll v ''Kilo Code'' sn) ''Kilo'' sn
   \<and> (overlap_free sn ''Kilo'' \<longrightarrow>
        \<not> sublist ''Kilocode'' (replaceAll (replaceAll t ''Kilo Code'' sn) ''Kilo'' sn)
        \<and> rewriteLocaleText sn dn t = replaceAll (replaceAll t ''Kilo Code'' sn) ''Kilo'' sn
        \<and> rewriteLocaleText sn dn (u @ ''Kilocode'' @ v) =
            rewriteLocaleText sn dn u @ sn @ ''code'' @ rewriteLocaleText sn dn v)"
proof (intro conjI impI)
  show "replaceAll (replaceAll (u @ ''Kilocode'' @ v) ''Kilo Code'' sn) ''Kilo'' sn =
     replaceAll (replaceAll u ''Kilo Code'' sn) ''Kilo'' sn @ sn @ ''code''
       @ replaceAll (replaceAll v ''Kilo Code'' sn) ''Kilo'' sn"
    by (rule second_step_on_Kilocode)
next
  assume ov: "overlap_free sn ''Kilo''"
  have idle: "\<And>x. rewriteLocaleText sn dn x = replaceAll (replaceAll x ''Kilo Code'' sn) ''Kilo'' sn"
    unfolding rewriteLocaleText_def
    by (rule replaceAll_id) (rule locale_third_step_idle(2)[OF no_Kilo_after_second_step[OF ov]])
  show "\<not> sublist ''Kilocode'' (replaceAll (replaceAll t ''Kilo Code'' sn) ''Kilo'' sn)"
    by (rule locale_third_step_idle(2)[OF no_Kilo_after_second_step[OF ov]])
  show "rewriteLocaleText sn dn t = replaceAll (replaceAll t ''Kilo Code'' sn) ''Kilo'' sn"
    by (rule idle)
  show "rewriteLocaleText sn dn (u @ ''Kilocode'' @ v) =
            rewriteLocaleText sn dn u @ sn @ ''code'' @ rewriteLocaleText sn dn v"
    unfolding idle by (rule second_step_on_Kilocode)
qed

theorem C10_Kilocode_rewritten_by_second_step_witness:
  "overlap_free ''Jack'' ''Kilo''
   \<and> rewriteLocaleText ''Jack'' ''Jack Assistant'' (''Open '' @ ''Kilocode'' @ '' now'')
       = rewriteLocaleText ''Jack'' ''Jack Assistant'' ''Open '' @ ''Jack'' @ ''code''
         @ rewriteLocaleText ''Jack'' ''Jack Assistant'' '' now''
   \<and> rewriteLocaleText ''Jack'' ''Jack Assistant'' (''Open '' @ ''Kilocode'' @ '' now'')
       = ''Open Jackcode now''"
proof -
  have given: "overlap_free ''Jack'' ''Kilo''" by code_simp
  have run: "rewriteLocaleText ''Jack'' ''Jack Assistant'' (''Open '' @ ''Kilocode'' @ '' now'')
       = ''Open Jackcode now''"
    by code_simp
  from C10_Kilocode_rewritten_by_second_step[of "''Open ''" "'' now''" "''Jack''" _ "''Jack Assistant''"]
    given
  have "rewriteLocaleText ''Jack'' ''Jack Assistant'' (''Open '' @ ''Kilocode'' @ '' now'')
       = rewriteLocaleText ''Jack'' ''Jack Assistant'' ''Open '' @ ''Jack'' @ ''code''
         @ rewriteLocaleText ''Jack'' ''Jack Assistant'' '' now''"
    by blast
  with given run show ?thesis by blast
qed

text \<open>
  C10 as stated asks only that the short name does not contain "Kilo". The short name "lo"
  does not, and on the text "KiKilocode" the second replacement produces "Kilocode" again:
  the third replacement matches it, and the output is the display name, without "locode".
\<close>

theorem C10_counterexample:
  "\<not> sublist ''Kilo'' ''lo''
   \<and> replaceAll (replaceAll (''Ki'' @ ''Kilocode'' @ []) ''Kilo Code'' ''lo'') ''Kilo'' ''lo''
       = ''Kilocode''
   \<and> rewriteLocaleText ''lo'' ''Jack Assistant'' (''Ki'' @ ''Kilocode'' @ []) = ''Jack Assistant''
   \<and> \<not> sublist (''lo'' @ ''code'')
         (rewriteLocaleText ''lo'' ''Jack Assistant'' (''Ki'' @ ''Kilocode'' @ []))"
  by code_simp

subsection \<open>Running the pipeline again\<close>

lemma rewritePackageText_free:
  assumes "overlap_free (name b) ''kilo-code''" "overlap_free (publisher b) ''kilo-code''"
    "overlap_free (publisher b) ''kilocode''"
  shows "\<not> sublist ''kilo-code'' (rewritePackageText b t)" "\<not> sublist ''kilocode'' (rewritePackageText b t)"
proof -
  have n1: "\<not> sublist ''kilo-code'' (replaceAll t ''kilo-code'' (name b))"
    by (rule replaceAll_removes[OF _ assms(1)]) simp
  show "\<not> sublist ''kilo-code'' (rewritePackageText b t)"
    unfolding rewritePackageText_def by (rule replaceAll_keeps_free[OF _ assms(2) n1]) simp
  show "\<not> sublist ''kilocode'' (rewritePackageText b t)"
    unfolding rewritePackageText_def by (rule replaceAll_removes[OF _ assms(3)]) simp
qed

lemma brandPackageJson_twice:
  "\<exists>pj. brandPackageJson b (JObject ps) = Inr pj
     \<and> brandPackageJson b pj = Inr pj
     \<and> getProperty ''name'' pj = Some (JString (name b))
     \<and> getProperty ''publisher'' pj = Some (JString (publisher b))
     \<and> getProperty ''description'' pj = Some (JString (description b))"
  by (simp add: brandPackageJson_def attempt_def map_of_assign assign_same)

lemma text_and_fields_fixed_point:
  "(overlap_free (name b) ''kilo-code'' \<and> overlap_free (publisher b) ''kilo-code''
      \<and> overlap_free (publisher b) ''kilocode''
     \<longrightarrow> \<not> sublist ''kilo-code'' (rewritePackageText b t)
       \<and> \<not> sublist ''kilocode'' (rewritePackageText b t)
       \<and> rewritePackageText b (rewritePackageText b t) = rewritePackageText b t)
   \<and> (\<exists>pj. brandPackageJson b (JObject ps) = Inr pj
         \<and> brandPackageJson b pj = Inr pj
         \<and> getProperty ''name'' pj = Some (JString (name b))
         \<and> getProperty ''publisher'' pj = Some (JString (publisher b))
         \<and> getProperty ''description'' pj = Some (JString (description b)))
   \<and> (overlap_free (deriveShortName b) ''Kilo''
     \<longrightarrow> \<not> sublist ''Kilo'' (rewriteLocaleText (deriveShortName b) (displayName b) t)
       \<and> rewriteLocaleText (deriveShortName b) (displayName b)
           (rewriteLocaleText (deriveShortName b) (displayName b) t)
          = rewriteLocaleText (deriveShortName b) (displayName b) t)"
proof (intro conjI impI)
  assume h: "overlap_free (name b) ''kilo-code'' \<and> overlap_free (publisher b) ''kilo-code''
      \<and> overlap_free (publisher b) ''kilocode''"
  then show n1: "\<not> sublist ''kilo-code'' (rewritePackageText b t)"
    and n2: "\<not> sublist ''kilocode'' (rewritePackageText b t)"
    using rewritePackageText_free by blast+
  show "rewritePackageText b (rewritePackageText b t) = rewritePackageText b t"
    using n1 n2 by (simp add: rewritePackageText_def[of b "rewritePackageText b t"] replaceAll_id)
next
  show "\<exists>pj. brandPackageJson b (JObject ps) = Inr pj
         \<and> brandPackageJson b pj = Inr pj
         \<and> getProperty ''name'' pj = Some (JString (name b))
         \<and> getProperty ''publisher'' pj = Some (JString (publisher b))
         \<and> getProperty ''description'' pj = Some (JString (description b))"
    by (rule brandPackageJson_twice)
next
  assume ov: "overlap_free (deriveShortName b) ''Kilo''"
  let ?L = "rewriteLocaleText (deriveShortName b) (displayName b)"
  have nk: "\<And>x. \<not> sublist ''Kilo'' (?L x)"
  proof -
    fix x
    have n: "\<not> sublist ''Kilo'' (replaceAll (replaceAll x ''Kilo Code'' (deriveShortName b)) ''Kilo'' (deriveShortName b))"
      by (rule no_Kilo_after_second_step[OF ov])
    show "\<not> sublist ''Kilo'' (?L x)"
      unfolding rewriteLocaleText_def
      using n by (simp add: replaceAll_id[OF locale_third_step_idle(2)[OF n]])
  qed
  show "\<not> sublist ''Kilo'' (?L t)" by (rule nk)
  show "?L (?L t) = ?L t"
    using nk[of t] locale_third_step_idle[OF nk[of t]]
    by (simp add: rewriteLocaleText_def[of _ _ "?L t"] replaceAll_id)
qed

lemma brandPackageJson_fixed:
  assumes "brandPackageJson b (JObject ps) = Inr pj"
  shows "brandPackageJson b pj = Inr pj"
    and "getProperty ''name'' pj = Some (JString (name b))"
    and "getProperty ''publisher'' pj = Some (JString (publisher b))"
    and "getProperty ''description'' pj = Some (JString (description b))"
  using brandPackageJson_twice[of b ps] assms by auto

lemma brandNls_fixed:
  assumes "brandNls b (JObject ps) = Inr n"
  shows "brandNls b n = Inr n"
  using assms
  by (auto simp: brandNls_def attempt_def map_of_assign assign_same)

lemma updatePackageJson_first_run:
  assumes "existsSync P fs (path_join P [rootDir P, relativePackagePath b])"
    and "readFileSync P fs (path_join P [rootDir P, relativePackagePath b]) = Inr content"
    and "JSON_parse P (rewritePackageText b content) = Inr doc"
    and "brandPackageJson b doc = Inr pj"
    and "writeFileSync P fs (path_join P [rootDir P, relativePackagePath b])
           (JSON_stringify P pj @ [CHR 0x0A]) = Inr fs1"
  shows "updatePackageJson P b fs out
     = Completed fs1 (out @ [Log (''Updated '' @ relativePackagePath b)])"
  using assms by (simp add: updatePackageJson_def)

lemma updatePackageJson_second_run:
  assumes "existsSync P fs1 (path_join P [rootDir P, relativePackagePath b])"
    and "readFileSync P fs1 (path_join P [rootDir P, relativePackagePath b]) = Inr w"
    and "\<not> sublist ''kilo-code'' w" and "\<not> sublist ''kilocode'' w"
    and "JSON_parse P w = Inr pj"
    and "brandPackageJson b pj = Inr pj"
  shows "updatePackageJson P b fs1 out
     = (case writeFileSync P fs1 (path_join P [rootDir P, relativePackagePath b])
               (JSON_stringify P pj @ [CHR 0x0A]) of
          Inl e \<Rightarrow> Threw e fs1 out
        | Inr fs2 \<Rightarrow> Completed fs2 (out @ [Log (''Updated '' @ relativePackagePath b)]))"
proof -
  have "rewritePackageText b w = w"
    using assms(3,4) by (simp add: rewritePackageText_def replaceAll_id)
  then show ?thesis using assms(1,2,5,6) by (simp add: updatePackageJson_def)
qed

lemma updateNls_first_run:
  assumes "existsSync P fs (path_join P [rootDir P, relativeNlsPath b])"
    and "readFileSync P fs (path_join P [rootDir P, relativeNlsPath b]) = Inr content"
    and "JSON_parse P content = Inr doc"
    and "brandNls b doc = Inr n"
    and "writeFileSync P fs (path_join P [rootDir P, relativeNlsPath b])
           (JSON_stringify P n @ [CHR 0x0A]) = Inr fs1"
  shows "updateNls P b fs out
     = Completed fs1 (out @ [Log (''Updated '' @ relativeNlsPath b)])"
  using assms by (simp add: updateNls_def)

lemma updateNls_second_run:
  assumes "existsSync P fs1 (path_join P [rootDir P, relativeNlsPath b])"
    and "readFileSync P fs1 (path_join P [rootDir P, relativeNlsPath b]) = Inr w"
    and "JSON_parse P w = Inr n"
    and "brandNls b n = Inr n"
  shows "updateNls P b fs1 out
     = (case writeFileSync P fs1 (path_join P [rootDir P, relativeNlsPath b])
               (JSON_stringify P n @ [CHR 0x0A]) of
          Inl e \<Rightarrow> Threw e fs1 out
        | Inr fs2 \<Rightarrow> Completed fs2 (out @ [Log (''Updated '' @ relativeNlsPath b)]))"
  using assms by (simp add: updateNls_def)

lemma rewriteLocaleFiles_file:
  assumes "endsWith fname ''.json''"
    and "readFileSync P fs (path_join P [dir, fname]) = Inr c"
  shows "rewriteLocaleFiles P b dir (fname # rest) fs out
     = (case writeFileSync P fs (path_join P [dir, fname])
               (rewriteLocaleText (deriveShortName b) (displayName b) c) of
          Inl e \<Rightarrow> Threw e fs out
        | Inr fs' \<Rightarrow> rewriteLocaleFiles P b dir rest fs' (out @ [Log (''Updated locale file: '' @ fname)]))"
  using assms by (simp add: Let_def)

text \<open>
  C4, as amended. For every configuration, the fields name, publisher and description of
  the manifest equal the configured values after the field overwrite, and the overwrite
  applied to its own result changes nothing. For every configuration whose name cannot
  overlap "kilo-code" and whose publisher can overlap neither "kilo-code" nor "kilocode",
  the rewritten manifest text, which is the text handed to the parser, contains neither
  token and rewriting it again changes nothing; for every configuration whose short name
  cannot overlap "Kilo", the rewritten locale text contains no "Kilo" and rewriting it
  again changes nothing.

  On the files: let the file system give back what was written to it and the parser read
  the written text back as the written document. When the manifest stage completes and the
  manifest text it wrote contains neither "kilo-code" nor "kilocode", the document it wrote
  has name, publisher and description as configured, and the stage run again on the
  result writes the same text to the same file. The localization-map stage run again
  writes the same text again. When the short name cannot overlap "Kilo", a locale file
  rewritten by the first run is written back with the same text by the second.
\<close>

theorem C4_fixed_point:
  "(overlap_free (name b) ''kilo-code'' \<and> overlap_free (publisher b) ''kilo-code''
      \<and> overlap_free (publisher b) ''kilocode''
     \<longrightarrow> \<not> sublist ''kilo-code'' (rewritePackageText b t)
       \<and> \<not> sublist ''kilocode'' (rewritePackageText b t)
       \<and> rewritePackageText b (rewritePackageText b t) = rewritePackageText b t)
   \<and> (\<exists>pj. brandPackageJson b (JObject ps) = Inr pj
         \<and> brandPackageJson b pj = Inr pj
         \<and> getProperty ''name'' pj = Some (JString (name b))
         \<and> getProperty ''publisher'' pj = Some (JString (publisher b))
         \<and> getProperty ''description'' pj = Some (JString (description b)))
   \<and> (overlap_free (deriveShortName b) ''Kilo''
     \<longrightarrow> \<not> sublist ''Kilo'' (rewriteLocaleText (deriveShortName b) (displayName b) t)
       \<and> rewriteLocaleText (deriveShortName b) (displayName b)
           (rewriteLocaleText (deriveShortName b) (displayName b) t)
          = rewriteLocaleText (deriveShortName b) (displayName b) t)
   \<and> (existsSync P fs (path_join P [rootDir P, relativePackagePath b])
        \<and> readFileSync P fs (path_join P [rootDir P, relativePackagePath b]) = Inr content
        \<and> JSON_parse P (rewritePackageText b content) = Inr (JObject ms)
        \<and> brandPackageJson b (JObject ms) = Inr written
        \<and> writeFileSync P fs (path_join P [rootDir P, relativePackagePath b])
              (JSON_stringify P written @ [CHR 0x0A]) = Inr fs1
        \<and> existsSync P fs1 (path_join P [rootDir P, relativePackagePath b])
        \<and> readFileSync P fs1 (path_join P [rootDir P, relativePackagePath b])
              = Inr (JSON_stringify P written @ [CHR 0x0A])
        \<and> JSON_parse P (JSON_stringify P written @ [CHR 0x0A]) = Inr written
        \<and> \<not> sublist ''kilo-code'' (JSON_stringify P written @ [CHR 0x0A])
        \<and> \<not> sublist ''kilocode'' (JSON_stringify P written @ [CHR 0x0A])
      \<longrightarrow> updatePackageJson P b fs out
            = Completed fs1 (out @ [Log (''Updated '' @ relativePackagePath b)])
        \<and> getProperty ''name'' written = Some (JString (name b))
        \<and> getProperty ''publisher'' written = Some (JString (publisher b))
        \<and> getProperty ''description'' written = Some (JString (description b))
        \<and> updatePackageJson P b fs1 out1
            = (case writeFileSync P fs1 (path_join P [rootDir P, relativePackagePath b])
                      (JSON_stringify P written @ [CHR 0x0A]) of
                 Inl e \<Rightarrow> Threw e fs1 out1
               | Inr fs2 \<Rightarrow> Completed fs2 (out1 @ [Log (''Updated '' @ relativePackagePath b)])))
   \<and> (existsSync P fsn (path_join P [rootDir P, relativeNlsPath b])
        \<and> readFileSync P fsn (path_join P [rootDir P, relativeNlsPath b]) = Inr ncontent
        \<and> JSON_parse P ncontent = Inr (JObject ns)
        \<and> brandNls b (JObject ns) = Inr nwritten
        \<and> writeFileSync P fsn (path_join P [rootDir P, relativeNlsPath b])
              (JSON_stringify P nwritten @ [CHR 0x0A]) = Inr fsn1
        \<and> existsSync P fsn1 (path_join P [rootDir P, relativeNlsPath b])
        \<and> readFileSync P fsn1 (path_join P [rootDir P, relativeNlsPath b])
              = Inr (JSON_stringify P nwritten @ [CHR 0x0A])
        \<and> JSON_parse P (JSON_stringify P nwritten @ [CHR 0x0A]) = Inr nwritten
      \<longrightarrow> updateNls P b fsn out
            = Completed fsn1 (out @ [Log (''Updated '' @ relativeNlsPath b)])
        \<and> updateNls P b fsn1 out1
            = (case writeFileSync P fsn1 (path_join P [rootDir P, relativeNlsPath b])
                      (JSON_stringify P nwritten @ [CHR 0x0A]) of
                 Inl e \<Rightarrow> Threw e fsn1 out1
               | Inr fs2 \<Rightarrow> Completed fs2 (out1 @ [Log (''Updated '' @ relativeNlsPath b)])))
   \<and> (overlap_free (deriveShortName b) ''Kilo''
        \<and> endsWith fname ''.json''
        \<and> readFileSync P fsl (path_join P [dir, fname]) = Inr c
        \<and> writeFileSync P fsl (path_join P [dir, fname])
              (rewriteLocaleText (deriveShortName b) (displayName b) c) = Inr fsl1
        \<and> readFileSync P fsl1 (path_join P [dir, fname])
              = Inr (rewriteLocaleText (deriveShortName b) (displayName b) c)
      \<longrightarrow> rewriteLocaleFiles P b dir (fname # rest) fsl out
            = rewriteLocaleFiles P b dir rest fsl1 (out @ [Log (''Updated locale file: '' @ fname)])
        \<and> rewriteLocaleFiles P b dir (fname # rest1) fsl1 out1
            = (case writeFileSync P fsl1 (path_join P [dir, fname])
                      (rewriteLocaleText (deriveShortName b) (displayName b) c) of
                 Inl e \<Rightarrow> Threw e fsl1 out1
               | Inr fs2 \<Rightarrow> rewriteLocaleFiles P b dir rest1 fs2
                             (out1 @ [Log (''Updated locale file: '' @ fname)])))"
proof -
  have manifest: "updatePackageJson P b fs out
            = Completed fs1 (out @ [Log (''Updated '' @ relativePackagePath b)])
        \<and> getProperty ''name'' written = Some (JString (name b))
        \<and> getProperty ''publisher'' written = Some (JString (publisher b))
        \<and> getProperty ''description'' written = Some (JString (description b))
        \<and> updatePackageJson P b fs1 out1
            = (case writeFileSync P fs1 (path_join P [rootDir P, relativePackagePath b])
                      (JSON_stringify P written @ [CHR 0x0A]) of
                 Inl e \<Rightarrow> Threw e fs1 out1
               | Inr fs2 \<Rightarrow> Completed fs2 (out1 @ [Log (''Updated '' @ relativePackagePath b)]))"
    if h: "existsSync P fs (path_join P [rootDir P, relativePackagePath b])
        \<and> readFileSync P fs (path_join P [rootDir P, relativePackagePath b]) = Inr content
        \<and> JSON_parse P (rewritePackageText b content) = Inr (JObject ms)
        \<and> brandPackageJson b (JObject ms) = Inr written
        \<and> writeFileSync P fs (path_join P [rootDir P, relativePackagePath b])
              (JSON_stringify P written @ [CHR 0x0A]) = Inr fs1
        \<and> existsSync P fs1 (path_join P [rootDir P, relativePackagePath b])
        \<and> readFileSync P fs1 (path_join P [rootDir P, relativePackagePath b])
              = Inr (JSON_stringify P written @ [CHR 0x0A])
        \<and> JSON_parse P (JSON_stringify P written @ [CHR 0x0A]) = Inr written
        \<and> \<not> sublist ''kilo-code'' (JSON_stringify P written @ [CHR 0x0A])
        \<and> \<not> sublist ''kilocode'' (JSON_stringify P written @ [CHR 0x0A])"
  proof -
    from h have br: "brandPackageJson b (JObject ms) = Inr written" by blast
    note fixed = brandPackageJson_fixed[OF br]
    have first: "updatePackageJson P b fs out
            = Completed fs1 (out @ [Log (''Updated '' @ relativePackagePath b)])"
      using h by (intro updatePackageJson_first_run) blast+
    have second: "updatePackageJson P b fs1 out1
            = (case writeFileSync P fs1 (path_join P [rootDir P, relativePackagePath b])
                      (JSON_stringify P written @ [CHR 0x0A]) of
                 Inl e \<Rightarrow> Threw e fs1 out1
               | Inr fs2 \<Rightarrow> Completed fs2 (out1 @ [Log (''Updated '' @ relativePackagePath b)]))"
      using h fixed(1) by (intro updatePackageJson_second_run) blast+
    from first second fixed(2,3,4) show ?thesis by blast
  qed
  have nlsmap: "updateNls P b fsn out
            = Completed fsn1 (out @ [Log (''Updated '' @ relativeNlsPath b)])
        \<and> updateNls P b fsn1 out1
            = (case writeFileSync P fsn1 (path_join P [rootDir P, relativeNlsPath b])
                      (JSON_stringify P nwritten @ [CHR 0x0A]) of
                 Inl e \<Rightarrow> Threw e fsn1 out1
               | Inr fs2 \<Rightarrow> Completed fs2 (out1 @ [Log (''Updated '' @ relativeNlsPath b)]))"
    if h: "existsSync P fsn (path_join P [rootDir P, relativeNlsPath b])
        \<and> readFileSync P fsn (path_join P [rootDir P, relativeNlsPath b]) = Inr ncontent
        \<and> JSON_parse P ncontent = Inr (JObject ns)
        \<and> brandNls b (JObject ns) = Inr nwritten
        \<and> writeFileSync P fsn (path_join P [rootDir P, relativeNlsPath b])
              (JSON_stringify P nwritten @ [CHR 0x0A]) = Inr fsn1
        \<and> existsSync P fsn1 (path_join P [rootDir P, relativeNlsPath b])
        \<and> readFileSync P fsn1 (path_join P [rootDir P, relativeNlsPath b])
              = Inr (JSON_stringify P nwritten @ [CHR 0x0A])
        \<and> JSON_parse P (JSON_stringify P nwritten @ [CHR 0x0A]) = Inr nwritten"
  proof -
    from h have br: "brandNls b (JObject ns) = Inr nwritten" by blast
    have first: "updateNls P b fsn out
            = Completed fsn1 (out @ [Log (''Updated '' @ relativeNlsPath b)])"
      using h by (intro updateNls_first_run) blast+
    have second: "updateNls P b fsn1 out1
            = (case writeFileSync P fsn1 (path_join P [rootDir P, relativeNlsPath b])
                      (JSON_stringify P nwritten @ [CHR 0x0A]) of
                 Inl e \<Rightarrow> Threw e fsn1 out1
               | Inr fs2 \<Rightarrow> Completed fs2 (out1 @ [Log (''Updated '' @ relativeNlsPath b)]))"
      using h brandNls_fixed[OF br] by (intro updateNls_second_run) blast+
    from first second show ?thesis by blast
  qed
  have lfile: "rewriteLocaleFiles P b dir (fname # rest) fsl out
            = rewriteLocaleFiles P b dir rest fsl1 (out @ [Log (''Updated locale file: '' @ fname)])
        \<and> rewriteLocaleFiles P b dir (fname # rest1) fsl1 out1
            = (case writeFileSync P fsl1 (path_join P [dir, fname])
                      (rewriteLocaleText (deriveShortName b) (displayName b) c) of
                 Inl e \<Rightarrow> Threw e fsl1 out1
               | Inr fs2 \<Rightarrow> rewriteLocaleFiles P b dir rest1 fs2
                             (out1 @ [Log (''Updated locale file: '' @ fname)]))"
    if h: "overlap_free (deriveShortName b) ''Kilo''
        \<and> endsWith fname ''.json''
        \<and> readFileSync P fsl (path_join P [dir, fname]) = Inr c
        \<and> writeFileSync P fsl (path_join P [dir, fname])
              (rewriteLocaleText (deriveShortName b) (displayName b) c) = Inr fsl1
        \<and> readFileSync P fsl1 (path_join P [dir, fname])
              = Inr (rewriteLocaleText (deriveShortName b) (displayName b) c)"
  proof -
    from h have ov: "overlap_free (deriveShortName b) ''Kilo''" by blast
    have again: "rewriteLocaleText (deriveShortName b) (displayName b)
           (rewriteLocaleText (deriveShortName b) (displayName b) c)
          = rewriteLocaleText (deriveShortName b) (displayName b) c"
      using text_and_fields_fixed_point[of b c] ov by blast
    have first: "rewriteLocaleFiles P b dir (fname # rest) fsl out
            = rewriteLocaleFiles P b dir rest fsl1 (out @ [Log (''Updated locale file: '' @ fname)])"
      using h rewriteLocaleFiles_file[of fname P fsl dir c b rest out] by simp
    have second: "rewriteLocaleFiles P b dir (fname # rest1) fsl1 out1
            = (case writeFileSync P fsl1 (path_join P [dir, fname])
                      (rewriteLocaleText (deriveShortName b) (displayName b) c) of
                 Inl e \<Rightarrow> Threw e fsl1 out1
               | Inr fs2 \<Rightarrow> rewriteLocaleFiles P b dir rest1 fs2
                             (out1 @ [Log (''Updated locale file: '' @ fname)]))"
      using h rewriteLocaleFiles_file[of fname P fsl1 dir
          "rewriteLocaleText (deriveShortName b) (displayName b) c" b rest1 out1]
      by (simp only: again)
    from first second show ?thesis by blast
  qed
  show ?thesis
    using text_and_fields_fixed_point[of b t ps] manifest nlsmap lfile
    by (intro conjI impI) blast+
qed

theorem C4_fixed_point_witness:
  "overlap_free (name plainConfig) ''kilo-code'' \<and> overlap_free (publisher plainConfig) ''kilo-code''
   \<and> overlap_free (publisher plainConfig) ''kilocode''
   \<and> overlap_free (deriveShortName plainConfig) ''Kilo''
   \<and> rewritePackageText plainConfig (rewritePackageText plainConfig ''kilo-code.open by kilocode'')
       = rewritePackageText plainConfig ''kilo-code.open by kilocode''
   \<and> rewritePackageText plainConfig ''kilo-code.open by kilocode'' = ''jack-code.open by jackcode''
   \<and> readFileSync jsonPlatform checkoutFs
         (path_join jsonPlatform [rootDir jsonPlatform, relativePackagePath plainConfig])
       = Inr (compactText (JObject [(''name'', JString ''kilo-code''), (''main'', JString ''kilo-code.js'')]))
   \<and> brandPackageJson plainConfig
         (JObject [(''name'', JString ''jack-code''), (''main'', JString ''jack-code.js'')])
       = Inr jackManifest
   \<and> \<not> sublist ''kilo-code'' (JSON_stringify jsonPlatform jackManifest @ [CHR 0x0A])
   \<and> \<not> sublist ''kilocode'' (JSON_stringify jsonPlatform jackManifest @ [CHR 0x0A])
   \<and> updatePackageJson jsonPlatform plainConfig checkoutFs []
       = Completed jackManifestFs ([] @ [Log (''Updated '' @ relativePackagePath plainConfig)])
   \<and> getProperty ''name'' jackManifest = Some (JString (name plainConfig))
   \<and> updatePackageJson jsonPlatform plainConfig jackManifestFs []
       = (case writeFileSync jsonPlatform jackManifestFs
                 (path_join jsonPlatform [rootDir jsonPlatform, relativePackagePath plainConfig])
                 (JSON_stringify jsonPlatform jackManifest @ [CHR 0x0A]) of
            Inl e \<Rightarrow> Threw e jackManifestFs []
          | Inr fs2 \<Rightarrow> Completed fs2 ([] @ [Log (''Updated '' @ relativePackagePath plainConfig)]))
   \<and> updatePackageJson jsonPlatform plainConfig jackManifestFs []
       = Completed jackManifestFs [Log ''Updated src/package.json'']
   \<and> updateNls jsonPlatform plainConfig checkoutFs []
       = Completed jackNlsFs ([] @ [Log (''Updated '' @ relativeNlsPath plainConfig)])
   \<and> updateNls jsonPlatform plainConfig jackNlsFs []
       = Completed jackNlsFs [Log ''Updated src/package.nls.json'']
   \<and> rewriteLocaleFiles jsonPlatform plainConfig ''/repo/rebranding/../webview-ui/src/i18n/locales/en''
         (''chat.json'' # []) checkoutFs []
       = rewriteLocaleFiles jsonPlatform plainConfig ''/repo/rebranding/../webview-ui/src/i18n/locales/en''
           [] jackLocaleFs ([] @ [Log (''Updated locale file: '' @ ''chat.json'')])
   \<and> rewriteLocaleFiles jsonPlatform plainConfig ''/repo/rebranding/../webview-ui/src/i18n/locales/en''
         (''chat.json'' # []) jackLocaleFs []
       = Completed jackLocaleFs [Log ''Updated locale file: chat.json'']"
proof -
  have texts: "overlap_free (name plainConfig) ''kilo-code'' \<and> overlap_free (publisher plainConfig) ''kilo-code''
     \<and> overlap_free (publisher plainConfig) ''kilocode''
     \<and> overlap_free (deriveShortName plainConfig) ''Kilo''"
    by code_simp
  have manifest: "existsSync jsonPlatform checkoutFs
          (path_join jsonPlatform [rootDir jsonPlatform, relativePackagePath plainConfig])
     \<and> readFileSync jsonPlatform checkoutFs
          (path_join jsonPlatform [rootDir jsonPlatform, relativePackagePath plainConfig])
         = Inr (compactText (JObject [(''name'', JString ''kilo-code''), (''main'', JString ''kilo-code.js'')]))
     \<and> JSON_parse jsonPlatform (rewritePackageText plainConfig
            (compactText (JObject [(''name'', JString ''kilo-code''), (''main'', JString ''kilo-code.js'')])))
         = Inr (JObject [(''name'', JString ''jack-code''), (''main'', JString ''jack-code.js'')])
     \<and> brandPackageJson plainConfig
           (JObject [(''name'', JString ''jack-code''), (''main'', JString ''jack-code.js'')])
         = Inr jackManifest
     \<and> writeFileSync jsonPlatform checkoutFs
          (path_join jsonPlatform [rootDir jsonPlatform, relativePackagePath plainConfig])
          (JSON_stringify jsonPlatform jackManifest @ [CHR 0x0A]) = Inr jackManifestFs
     \<and> existsSync jsonPlatform jackManifestFs
          (path_join jsonPlatform [rootDir jsonPlatform, relativePackagePath plainConfig])
     \<and> readFileSync jsonPlatform jackManifestFs
          (path_join jsonPlatform [rootDir jsonPlatform, relativePackagePath plainConfig])
         = Inr (JSON_stringify jsonPlatform jackManifest @ [CHR 0x0A])
     \<and> JSON_parse jsonPlatform (JSON_stringify jsonPlatform jackManifest @ [CHR 0x0A]) = Inr jackManifest
     \<and> \<not> sublist ''kilo-code'' (JSON_stringify jsonPlatform jackManifest @ [CHR 0x0A])
     \<and> \<not> sublist ''kilocode'' (JSON_stringify jsonPlatform jackManifest @ [CHR 0x0A])"
    by code_simp
  have nlsmap: "existsSync jsonPlatform checkoutFs
          (path_join jsonPlatform [rootDir jsonPlatform, relativeNlsPath plainConfig])
     \<and> readFileSync jsonPlatform checkoutFs
          (path_join jsonPlatform [rootDir jsonPlatform, relativeNlsPath plainConfig])
         = Inr (compactText (JObject [(''extension.displayName'', JString ''Kilo Code'')]))
     \<and> JSON_parse jsonPlatform (compactText (JObject [(''extension.displayName'', JString ''Kilo Code'')]))
         = Inr (JObject [(''extension.displayName'', JString ''Kilo Code'')])
     \<and> brandNls plainConfig (JObject [(''extension.displayName'', JString ''Kilo Code'')])
         = Inr jackNlsMap
     \<and> writeFileSync jsonPlatform checkoutFs
          (path_join jsonPlatform [rootDir jsonPlatform, relativeNlsPath plainConfig])
          (JSON_stringify jsonPlatform jackNlsMap @ [CHR 0x0A]) = Inr jackNlsFs
     \<and> existsSync jsonPlatform jackNlsFs
          (path_join jsonPlatform [rootDir jsonPlatform, relativeNlsPath plainConfig])
     \<and> readFileSync jsonPlatform jackNlsFs
          (path_join jsonPlatform [rootDir jsonPlatform, relativeNlsPath plainConfig])
         = Inr (JSON_stringify jsonPlatform jackNlsMap @ [CHR 0x0A])
     \<and> JSON_parse jsonPlatform (JSON_stringify jsonPlatform jackNlsMap @ [CHR 0x0A]) = Inr jackNlsMap"
    by code_simp
  have lfile: "endsWith ''chat.json'' ''.json''
     \<and> readFileSync jsonPlatform checkoutFs
          (path_join jsonPlatform [''/repo/rebranding/../webview-ui/src/i18n/locales/en'', ''chat.json''])
         = Inr ''Kilo Code says Kilo''
     \<and> writeFileSync jsonPlatform checkoutFs
          (path_join jsonPlatform [''/repo/rebranding/../webview-ui/src/i18n/locales/en'', ''chat.json''])
          (rewriteLocaleText (deriveShortName plainConfig) (displayName plainConfig) ''Kilo Code says Kilo'')
         = Inr jackLocaleFs
     \<and> readFileSync jsonPlatform jackLocaleFs
          (path_join jsonPlatform [''/repo/rebranding/../webview-ui/src/i18n/locales/en'', ''chat.json''])
         = Inr (rewriteLocaleText (deriveShortName plainConfig) (displayName plainConfig) ''Kilo Code says Kilo'')"
    by code_simp
  have runs: "rewritePackageText plainConfig ''kilo-code.open by kilocode'' = ''jack-code.open by jackcode''
     \<and> updatePackageJson jsonPlatform plainConfig jackManifestFs []
         = Completed jackManifestFs [Log ''Updated src/package.json'']
     \<and> updateNls jsonPlatform plainConfig jackNlsFs []
         = Completed jackNlsFs [Log ''Updated src/package.nls.json'']
     \<and> rewriteLocaleFiles jsonPlatform plainConfig ''/repo/rebranding/../webview-ui/src/i18n/locales/en''
         (''chat.json'' # []) jackLocaleFs []
       = Completed jackLocaleFs [Log ''Updated locale file: chat.json'']"
    by code_simp
  note inst = C4_fixed_point[where b = plainConfig and P = jsonPlatform
      and t = "''kilo-code.open by kilocode''" and ps = "[] :: (string \<times> nat jsvalue) list"
      and fs = checkoutFs
      and content = "compactText (JObject [(''name'', JString ''kilo-code''), (''main'', JString ''kilo-code.js'')])"
      and ms = "[(''name'', JString ''jack-code''), (''main'', JString ''jack-code.js'')]"
      and written = jackManifest and ?fs1.0 = jackManifestFs and out = "[]" and ?out1.0 = "[]"
      and fsn = checkoutFs
      and ncontent = "compactText (JObject [(''extension.displayName'', JString ''Kilo Code'')])"
      and ns = "[(''extension.displayName'', JString ''Kilo Code'')]"
      and nwritten = jackNlsMap and ?fsn1.0 = jackNlsFs
      and fsl = checkoutFs and dir = "''/repo/rebranding/../webview-ui/src/i18n/locales/en''"
      and fname = "''chat.json''" and c = "''Kilo Code says Kilo''" and ?fsl1.0 = jackLocaleFs
      and rest = "[]" and ?rest1.0 = "[]"]
  from inst texts
  have c1: "rewritePackageText plainConfig (rewritePackageText plainConfig ''kilo-code.open by kilocode'')
       = rewritePackageText plainConfig ''kilo-code.open by kilocode''"
    by blast
  from inst manifest
  have c2: "updatePackageJson jsonPlatform plainConfig checkoutFs []
       = Completed jackManifestFs ([] @ [Log (''Updated '' @ relativePackagePath plainConfig)])
   \<and> getProperty ''name'' jackManifest = Some (JString (name plainConfig))
   \<and> updatePackageJson jsonPlatform plainConfig jackManifestFs []
       = (case writeFileSync jsonPlatform jackManifestFs
                 (path_join jsonPlatform [rootDir jsonPlatform, relativePackagePath plainConfig])
                 (JSON_stringify jsonPlatform jackManifest @ [CHR 0x0A]) of
            Inl e \<Rightarrow> Threw e jackManifestFs []
          | Inr fs2 \<Rightarrow> Completed fs2 ([] @ [Log (''Updated '' @ relativePackagePath plainConfig)]))"
    by blast
  from inst nlsmap
  have c3: "updateNls jsonPlatform plainConfig checkoutFs []
       = Completed jackNlsFs ([] @ [Log (''Updated '' @ relativeNlsPath plainConfig)])"
    by blast
  from inst texts lfile
  have c4: "rewriteLocaleFiles jsonPlatform plainConfig ''/repo/rebranding/../webview-ui/src/i18n/locales/en''
         (''chat.json'' # []) checkoutFs []
       = rewriteLocaleFiles jsonPlatform plainConfig ''/repo/rebranding/../webview-ui/src/i18n/locales/en''
           [] jackLocaleFs ([] @ [Log (''Updated locale file: '' @ ''chat.json'')])"
    by blast
  from texts manifest runs c1 c2 c3 c4 show ?thesis by blast
qed

text \<open>
  C4 as stated speaks of every valid configuration. With the name "kilo-code-pro", a
  manifest whose name is "kilo-code" and whose main file is "kilo-code.js" is written with
  the main file "kilo-code-pro.js", so the written text still contains "kilo-code"; the
  manifest stage run again on the result writes the main file "kilo-code-pro-pro.js".
\<close>

theorem C4_counterexample:
  "readFileSync jsonPlatform checkoutFs ''/repo/rebranding/../src/package.json''
       = Inr (compactText (JObject [(''name'', JString ''kilo-code''), (''main'', JString ''kilo-code.js'')]))
   \<and> updatePackageJson jsonPlatform nestedConfig checkoutFs []
       = Completed (assign ''/repo/rebranding/../src/package.json''
                      (File (prettyText nestedManifest1 @ [CHR 0x0A])) checkoutFs)
           [Log ''Updated src/package.json'']
   \<and> sublist ''kilo-code'' (prettyText nestedManifest1 @ [CHR 0x0A])
   \<and> updatePackageJson jsonPlatform nestedConfig
         (assign ''/repo/rebranding/../src/package.json''
            (File (prettyText nestedManifest1 @ [CHR 0x0A])) checkoutFs) []
       = Completed (assign ''/repo/rebranding/../src/package.json''
                      (File (prettyText nestedManifest2 @ [CHR 0x0A])) checkoutFs)
           [Log ''Updated src/package.json'']
   \<and> prettyText nestedManifest2 @ [CHR 0x0A] \<noteq> prettyText nestedManifest1 @ [CHR 0x0A]"
  by code_simp

subsection \<open>Fatal conditions and skipped stages\<close>

lemma stages_first_throws:
  "updatePackageJson P b fs out = Threw e fs' out' \<Longrightarrow> stages P b fs out = Threw e fs' out'"
  by (simp add: stages_def andThen_def)

lemma stages_second_throws:
  "updatePackageJson P b fs out = Completed fs1 out1 \<Longrightarrow> updateNls P b fs1 out1 = Threw e fs' out'
   \<Longrightarrow> stages P b fs out = Threw e fs' out'"
  by (simp add: stages_def andThen_def)

text \<open>
  C9, as amended. Without the configuration document the process ends with status 1 and
  one diagnostic line, the file system untouched. A manifest that does not parse after the
  replacements, or a localization map that does not parse, ends the stages at once with
  that exception: no later stage runs, the file system and the console stay as they were
  when it was thrown, and the run prints the exception as its last line. A missing manifest
  and a missing localization map are reported with one line each and the remaining stages
  run from there; a missing locale directory is skipped without a line.
\<close>

theorem C9_fatal_and_skipped:
  "(\<not> existsSync P fs (brandingPath P) \<longrightarrow>
      main P fs = Exit 1 fs [Error ''branding.json not found in rebranding directory.''])
   \<and> (existsSync P fs (path_join P [rootDir P, relativePackagePath b])
        \<and> readFileSync P fs (path_join P [rootDir P, relativePackagePath b]) = Inr content
        \<and> JSON_parse P (rewritePackageText b content) = Inl e
      \<longrightarrow> stages P b fs out = Threw e fs out)
   \<and> (updatePackageJson P b fs out = Completed fs1 out1
        \<and> existsSync P fs1 (path_join P [rootDir P, relativeNlsPath b])
        \<and> readFileSync P fs1 (path_join P [rootDir P, relativeNlsPath b]) = Inr content
        \<and> JSON_parse P content = Inl e
      \<longrightarrow> stages P b fs out = Threw e fs1 out1)
   \<and> (existsSync P fs (brandingPath P) \<and> loadBranding P fs = Inr b
        \<and> stages P b fs [Log (''Applying branding: '' @ name b)] = Threw e fs' out'
      \<longrightarrow> final_fs (main P fs) = fs' \<and> console (main P fs) = out' @ [ErrorExn e])
   \<and> (\<not> existsSync P fs (path_join P [rootDir P, relativePackagePath b])
      \<longrightarrow> stages P b fs out =
            andThen (updateNls P b fs (out @ [Error (relativePackagePath b @ '' not found'')]))
              (\<lambda>fs out. andThen (updateIcons P b fs out) (updateLocales P b)))
   \<and> (\<not> existsSync P fs (path_join P [rootDir P, relativeNlsPath b])
      \<longrightarrow> andThen (updateNls P b fs out) (\<lambda>fs out. andThen (updateIcons P b fs out) (updateLocales P b))
          = andThen (updateIcons P b fs (out @ [Error (relativeNlsPath b @ '' not found'')]))
              (updateLocales P b))
   \<and> (\<not> existsSync P fs (path_join P [rootDir P, ''webview-ui/src/i18n/locales/en''])
      \<longrightarrow> updateLocales P b fs out = Completed fs out)"
proof (intro conjI impI)
  assume "\<not> existsSync P fs (brandingPath P)"
  then show "main P fs = Exit 1 fs [Error ''branding.json not found in rebranding directory.'']"
    by (simp add: main_def)
next
  assume "existsSync P fs (path_join P [rootDir P, relativePackagePath b])
        \<and> readFileSync P fs (path_join P [rootDir P, relativePackagePath b]) = Inr content
        \<and> JSON_parse P (rewritePackageText b content) = Inl e"
  then have "updatePackageJson P b fs out = Threw e fs out"
    by (simp add: updatePackageJson_def)
  then show "stages P b fs out = Threw e fs out"
    by (rule stages_first_throws)
next
  assume h: "updatePackageJson P b fs out = Completed fs1 out1
        \<and> existsSync P fs1 (path_join P [rootDir P, relativeNlsPath b])
        \<and> readFileSync P fs1 (path_join P [rootDir P, relativeNlsPath b]) = Inr content
        \<and> JSON_parse P content = Inl e"
  then have "updateNls P b fs1 out1 = Threw e fs1 out1"
    by (simp add: updateNls_def)
  with h show "stages P b fs out = Threw e fs1 out1"
    by (simp add: stages_second_throws)
next
  assume h: "existsSync P fs (brandingPath P) \<and> loadBranding P fs = Inr b
        \<and> stages P b fs [Log (''Applying branding: '' @ name b)] = Threw e fs' out'"
  then show "final_fs (main P fs) = fs'" "console (main P fs) = out' @ [ErrorExn e]"
    by (simp_all add: main_def)
next
  assume "\<not> existsSync P fs (path_join P [rootDir P, relativePackagePath b])"
  then have "updatePackageJson P b fs out
      = Completed fs (out @ [Error (relativePackagePath b @ '' not found'')])"
    by (simp add: updatePackageJson_def)
  then show "stages P b fs out =
            andThen (updateNls P b fs (out @ [Error (relativePackagePath b @ '' not found'')]))
              (\<lambda>fs out. andThen (updateIcons P b fs out) (updateLocales P b))"
    by (simp add: stages_def andThen_def)
next
  assume "\<not> existsSync P fs (path_join P [rootDir P, relativeNlsPath b])"
  then have "updateNls P b fs out
      = Completed fs (out @ [Error (relativeNlsPath b @ '' not found'')])"
    by (simp add: updateNls_def)
  then show "andThen (updateNls P b fs out) (\<lambda>fs out. andThen (updateIcons P b fs out) (updateLocales P b))
          = andThen (updateIcons P b fs (out @ [Error (relativeNlsPath b @ '' not found'')]))
              (updateLocales P b)"
    by (simp add: andThen_def)
next
  assume "\<not> existsSync P fs (path_join P [rootDir P, ''webview-ui/src/i18n/locales/en''])"
  then show "updateLocales P b fs out = Completed fs out"
    by (simp add: updateLocales_def)
qed

theorem C9_fatal_and_skipped_witness:
  "\<not> existsSync memPlatform [] (brandingPath memPlatform)
   \<and> main memPlatform [] = Exit 1 [] [Error ''branding.json not found in rebranding directory.'']
   \<and> existsSync memPlatform brokenManifestFs
        (path_join memPlatform [rootDir memPlatform, relativePackagePath jackConfig])
   \<and> readFileSync memPlatform brokenManifestFs
        (path_join memPlatform [rootDir memPlatform, relativePackagePath jackConfig]) = Inr ''{''
   \<and> JSON_parse memPlatform (rewritePackageText jackConfig ''{'')
       = Inl (SyntaxError ''Unexpected end of JSON input'')
   \<and> stages memPlatform jackConfig brokenManifestFs [Log (''Applying branding: '' @ name jackConfig)]
       = Threw (SyntaxError ''Unexpected end of JSON input'') brokenManifestFs
           [Log (''Applying branding: '' @ name jackConfig)]
   \<and> existsSync memPlatform brokenManifestFs (brandingPath memPlatform)
   \<and> loadBranding memPlatform brokenManifestFs = Inr jackConfig
   \<and> final_fs (main memPlatform brokenManifestFs) = brokenManifestFs
   \<and> console (main memPlatform brokenManifestFs)
       = [Log (''Applying branding: '' @ name jackConfig)]
         @ [ErrorExn (SyntaxError ''Unexpected end of JSON input'')]
   \<and> \<not> existsSync memPlatform bareFs
        (path_join memPlatform [rootDir memPlatform, relativePackagePath jackConfig])
   \<and> \<not> existsSync memPlatform bareFs
        (path_join memPlatform [rootDir memPlatform, relativeNlsPath jackConfig])
   \<and> \<not> existsSync memPlatform bareFs
        (path_join memPlatform [rootDir memPlatform, ''webview-ui/src/i18n/locales/en''])
   \<and> stages memPlatform jackConfig bareFs []
       = andThen (updateIcons memPlatform jackConfig bareFs
            ([] @ [Error (relativePackagePath jackConfig @ '' not found'')]
                @ [Error (relativeNlsPath jackConfig @ '' not found'')]))
           (updateLocales memPlatform jackConfig)
   \<and> updateLocales memPlatform jackConfig bareFs [] = Completed bareFs []"
proof -
  have absent: "\<not> existsSync memPlatform [] (brandingPath memPlatform)"
    by code_simp
  have broken: "existsSync memPlatform brokenManifestFs
        (path_join memPlatform [rootDir memPlatform, relativePackagePath jackConfig])
     \<and> readFileSync memPlatform brokenManifestFs
        (path_join memPlatform [rootDir memPlatform, relativePackagePath jackConfig]) = Inr ''{''
     \<and> JSON_parse memPlatform (rewritePackageText jackConfig ''{'')
       = Inl (SyntaxError ''Unexpected end of JSON input'')"
    by code_simp
  have loaded: "existsSync memPlatform brokenManifestFs (brandingPath memPlatform)
     \<and> loadBranding memPlatform brokenManifestFs = Inr jackConfig"
    by code_simp
  have bare: "\<not> existsSync memPlatform bareFs
        (path_join memPlatform [rootDir memPlatform, relativePackagePath jackConfig])"
    "\<not> existsSync memPlatform bareFs
        (path_join memPlatform [rootDir memPlatform, relativeNlsPath jackConfig])"
    "\<not> existsSync memPlatform bareFs
        (path_join memPlatform [rootDir memPlatform, ''webview-ui/src/i18n/locales/en''])"
    by code_simp+
  from C9_fatal_and_skipped[where P = memPlatform and fs = "[]"] absent
  have r1: "main memPlatform [] = Exit 1 [] [Error ''branding.json not found in rebranding directory.'']"
    by blast
  from C9_fatal_and_skipped[where P = memPlatform and fs = brokenManifestFs and b = jackConfig
      and content = "''{''" and e = "SyntaxError ''Unexpected end of JSON input''"
      and out = "[Log (''Applying branding: '' @ name jackConfig)]"] broken
  have r2: "stages memPlatform jackConfig brokenManifestFs [Log (''Applying branding: '' @ name jackConfig)]
       = Threw (SyntaxError ''Unexpected end of JSON input'') brokenManifestFs
           [Log (''Applying branding: '' @ name jackConfig)]"
    by blast
  from C9_fatal_and_skipped[where P = memPlatform and fs = brokenManifestFs and b = jackConfig
      and e = "SyntaxError ''Unexpected end of JSON input''" and fs' = brokenManifestFs
      and out' = "[Log (''Applying branding: '' @ name jackConfig)]"] loaded r2
  have r3: "final_fs (main memPlatform brokenManifestFs) = brokenManifestFs
     \<and> console (main memPlatform brokenManifestFs)
       = [Log (''Applying branding: '' @ name jackConfig)]
         @ [ErrorExn (SyntaxError ''Unexpected end of JSON input'')]"
    by blast
  from C9_fatal_and_skipped[where P = memPlatform and fs = bareFs and b = jackConfig and out = "[]"]
    bare(1)
  have r4: "stages memPlatform jackConfig bareFs []
       = andThen (updateNls memPlatform jackConfig bareFs
                    ([] @ [Error (relativePackagePath jackConfig @ '' not found'')]))
           (\<lambda>fs out. andThen (updateIcons memPlatform jackConfig fs out)
                        (updateLocales memPlatform jackConfig))"
    by blast
  from C9_fatal_and_skipped[where P = memPlatform and fs = bareFs and b = jackConfig
      and out = "[] @ [Error (relativePackagePath jackConfig @ '' not found'')]"] bare(2)
  have r5: "andThen (updateNls memPlatform jackConfig bareFs
                    ([] @ [Error (relativePackagePath jackConfig @ '' not found'')]))
           (\<lambda>fs out. andThen (updateIcons memPlatform jackConfig fs out)
                        (updateLocales memPlatform jackConfig))
       = andThen (updateIcons memPlatform jackConfig bareFs
            (([] @ [Error (relativePackagePath jackConfig @ '' not found'')])
                @ [Error (relativeNlsPath jackConfig @ '' not found'')]))
           (updateLocales memPlatform jackConfig)"
    by blast
  from C9_fatal_and_skipped[where P = memPlatform and fs = bareFs and b = jackConfig and out = "[]"]
    bare(3)
  have r6: "updateLocales memPlatform jackConfig bareFs [] = Completed bareFs []"
    by blast
  from r4 r5 have r45: "stages memPlatform jackConfig bareFs []
       = andThen (updateIcons memPlatform jackConfig bareFs
            ([] @ [Error (relativePackagePath jackConfig @ '' not found'')]
                @ [Error (relativeNlsPath jackConfig @ '' not found'')]))
           (updateLocales memPlatform jackConfig)"
    by (simp only: append_assoc)
  from absent r1 broken r2 loaded r3 bare r45 r6 show ?thesis by blast
qed

text \<open>
  C9 as stated has a non-zero status after an exception and a report for every missing
  target. A manifest cut off after its first brace ends the run with the exception printed
  and status 0; a checkout without the locale directory gets no line about it.
\<close>

theorem C9_counterexample:
  "existsSync memPlatform brokenManifestFs (brandingPath memPlatform)
   \<and> status (main memPlatform brokenManifestFs) = 0
   \<and> console (main memPlatform brokenManifestFs) =
        [Log ''Applying branding: jack-code'', ErrorExn (SyntaxError ''Unexpected end of JSON input'')]
   \<and> \<not> existsSync memPlatform bareFs
        (path_join memPlatform [rootDir memPlatform, ''webview-ui/src/i18n/locales/en''])
   \<and> console (main memPlatform bareFs) =
        [Log ''Applying branding: jack-code'',
         Error ''src/package.json not found'', Error ''src/package.nls.json not found'',
         Warn ''Icon source not found: /repo/rebranding/../missing.png (checked relative to rebranding/ and root)'',
         Warn ''Icon source not found: /art/icon.png (checked relative to rebranding/ and root)'']"
  by code_simp

end
